theory Spec2Isabelle
  imports Main
begin

section \<open>Python values the program handles\<close>

text \<open>
  The program (\<^verbatim>\<open>src/main.py\<close>) is sequential glue around two external processes
  (\<^verbatim>\<open>ffprobe\<close>, \<^verbatim>\<open>ffmpeg\<close>) and the file system. Everything it does besides
  returning is an effect; the embedding makes the effects explicit as a trace of events,
  and an exception is a value of type \<open>exn\<close>. The calls that can raise are the ones
  the source puts inside a \<^verbatim>\<open>try\<close>: \<^verbatim>\<open>subprocess.run\<close>, \<^verbatim>\<open>json.loads\<close>, the
  reading of the parsed value, and \<^verbatim>\<open>os.makedirs\<close>. \<^verbatim>\<open>print\<close> and the functions of
  \<^verbatim>\<open>os.path\<close> (with the \<^verbatim>\<open>os.getcwd\<close> inside \<^verbatim>\<open>abspath\<close>) always return
  here. In Python they can raise as well (\<^verbatim>\<open>print\<close> on a path that the console
  encoding cannot encode, \<^verbatim>\<open>os.getcwd\<close> in a directory that was removed), so
  nothing below says that a run is free of exceptions.

  Only classes derived from Python's \<^verbatim>\<open>Exception\<close> are modelled, so a handler
  \<^verbatim>\<open>except Exception\<close> catches every value of \<open>exn\<close>. The class hierarchy the
  handlers of the source depend on is: \<^verbatim>\<open>FileNotFoundError\<close> is an \<^verbatim>\<open>OSError\<close>;
  \<^verbatim>\<open>CalledProcessError\<close>, \<^verbatim>\<open>JSONDecodeError\<close>, \<^verbatim>\<open>AttributeError\<close>,
  \<^verbatim>\<open>TypeError\<close> and \<^verbatim>\<open>ValueError\<close> are not.
\<close>

datatype exn =
    FileNotFoundError string
  | OSError string
  | CalledProcessError int "string option"
  | JSONDecodeError string
  | AttributeError string
  | TypeError string
  | ValueError string
  | OtherException string

fun is_OSError :: "exn \<Rightarrow> bool" where
  "is_OSError (FileNotFoundError m) = True"
| "is_OSError (OSError m) = True"
| "is_OSError x = False"

fun is_FileNotFoundError :: "exn \<Rightarrow> bool" where
  "is_FileNotFoundError (FileNotFoundError m) = True"
| "is_FileNotFoundError x = False"

text \<open>
  What \<^verbatim>\<open>json.loads\<close> returns: \<^verbatim>\<open>None\<close>, a bool, an int, a float (kept as its
  literal), a str, a list or a dict. A dict is the list of its items; its keys are
  pairwise distinct.
\<close>

datatype json =
    JNull
  | JBool bool
  | JInt int
  | JFloat string
  | JStr string
  | JArr "json list"
  | JObj "(string \<times> json) list"

text \<open>\<^verbatim>\<open>obj.get(key, default)\<close>: only a dict has the method.\<close>

fun py_get :: "json \<Rightarrow> string \<Rightarrow> json \<Rightarrow> exn + json" where
  "py_get (JObj kvs) k d = Inr (case map_of kvs k of None \<Rightarrow> d | Some v \<Rightarrow> v)"
| "py_get v k d = Inl (AttributeError ''get'')"

text \<open>\<^verbatim>\<open>len(v)\<close>: defined on lists, strings and dicts, a \<^verbatim>\<open>TypeError\<close> elsewhere.\<close>

fun py_len :: "json \<Rightarrow> exn + nat" where
  "py_len (JArr xs) = Inr (length xs)"
| "py_len (JStr s) = Inr (length s)"
| "py_len (JObj kvs) = Inr (length kvs)"
| "py_len v = Inl (TypeError ''len'')"

text \<open>\<^verbatim>\<open>str(i)\<close> for a non-negative int, as the f-strings \<^verbatim>\<open>{i}\<close> format it.\<close>

definition digit_char :: "nat \<Rightarrow> char" where
  "digit_char d = ''0123456789'' ! d"

fun str_of_nat :: "nat \<Rightarrow> string" where
  "str_of_nat n = (if n < 10 then [digit_char n] else str_of_nat (n div 10) @ [digit_char (n mod 10)])"

declare str_of_nat.simps [simp del]

text \<open>\<^verbatim>\<open>range(n)\<close> for an int \<open>n\<close>: empty when \<open>n \<le> 0\<close>.\<close>

definition py_range :: "int \<Rightarrow> nat list" where
  "py_range n = [0..<nat n]"

text \<open>
  \<^verbatim>\<open>s.strip()\<close>. A character stands for the code point of its number; the twelve
  below U+0100 for which \<^verbatim>\<open>str.isspace\<close> holds are removed.
\<close>

definition is_space :: "char \<Rightarrow> bool" where
  "is_space c = (c \<in> set [CHR '' '', CHR 0x09, CHR 0x0A, CHR 0x0B, CHR 0x0C, CHR 0x0D,
                            CHR 0x1C, CHR 0x1D, CHR 0x1E, CHR 0x1F, CHR 0x85, CHR 0xA0])"

definition strip :: "string \<Rightarrow> string" where
  "strip s = rev (dropWhile is_space (rev (dropWhile is_space s)))"

text \<open>\<^verbatim>\<open>' '.join(command)\<close>\<close>

fun space_join :: "string list \<Rightarrow> string" where
  "space_join [] = []"
| "space_join [w] = w"
| "space_join (w # ws) = w @ '' '' @ space_join ws"

section \<open>\<^verbatim>\<open>os.path\<close> on POSIX\<close>

text \<open>
  The source calls \<^verbatim>\<open>os.path.basename\<close>, \<^verbatim>\<open>splitext\<close>, \<^verbatim>\<open>dirname\<close>,
  \<^verbatim>\<open>abspath\<close> and \<^verbatim>\<open>join\<close>. They are pure string functions; the definitions
  follow \<^verbatim>\<open>posixpath.py\<close> and \<^verbatim>\<open>genericpath.py\<close> of the standard library.
\<close>

text \<open>\<^verbatim>\<open>s.rfind(c)\<close>: the index of the last occurrence of \<open>c\<close>, or \<open>-1\<close>.\<close>

definition rfind :: "string \<Rightarrow> char \<Rightarrow> int" where
  "rfind s c = (case filter (\<lambda>i. s ! i = c) (rev [0..<length s]) of [] \<Rightarrow> - 1 | i # _ \<Rightarrow> int i)"

definition os_path_basename :: "string \<Rightarrow> string" where
  "os_path_basename p = drop (nat (rfind p CHR ''/'' + 1)) p"

definition rstrip_sep :: "string \<Rightarrow> string" where
  "rstrip_sep s = rev (dropWhile (\<lambda>c. c = CHR ''/'') (rev s))"

definition os_path_dirname :: "string \<Rightarrow> string" where
  "os_path_dirname p =
     (let head = take (nat (rfind p CHR ''/'' + 1)) p
      in if head \<noteq> [] \<and> head \<noteq> replicate (length head) CHR ''/'' then rstrip_sep head else head)"

text \<open>
  \<^verbatim>\<open>genericpath._splitext\<close>: the extension starts at the last dot, unless that dot comes
  before the last separator or only dots stand between the separator and it. The first
  component of the pair is what \<^verbatim>\<open>os.path.splitext(p)[0]\<close> reads.
\<close>

definition os_path_splitext :: "string \<Rightarrow> string \<times> string" where
  "os_path_splitext p =
     (let sepIndex = rfind p CHR ''/'';
          dotIndex = rfind p CHR ''.''
      in if dotIndex > sepIndex \<and>
            filter (\<lambda>c. c \<noteq> CHR ''.'') (drop (nat (sepIndex + 1)) (take (nat dotIndex) p)) \<noteq> []
         then (take (nat dotIndex) p, drop (nat dotIndex) p)
         else (p, []))"

text \<open>\<^verbatim>\<open>os.path.join(a, b)\<close> with one component \<open>b\<close>.\<close>

definition os_path_join :: "string \<Rightarrow> string \<Rightarrow> string" where
  "os_path_join a b =
     (if take 1 b = ''/'' then b
      else if a = [] \<or> last a = CHR ''/'' then a @ b
      else a @ ''/'' @ b)"

fun split_sep :: "string \<Rightarrow> string list" where
  "split_sep [] = [[]]"
| "split_sep (c # cs) =
     (if c = CHR ''/'' then [] # split_sep cs
      else (case split_sep cs of [] \<Rightarrow> [[c]] | w # ws \<Rightarrow> (c # w) # ws))"

fun sep_join :: "string list \<Rightarrow> string" where
  "sep_join [] = []"
| "sep_join [w] = w"
| "sep_join (w # ws) = w @ ''/'' @ sep_join ws"

text \<open>One iteration of the loop of \<^verbatim>\<open>normpath\<close> over the components.\<close>

definition norm_step :: "nat \<Rightarrow> string list \<Rightarrow> string \<Rightarrow> string list" where
  "norm_step initial_slashes new_comps cmp =
     (if cmp = [] \<or> cmp = ''.'' then new_comps
      else if cmp \<noteq> ''..'' \<or> (initial_slashes = 0 \<and> new_comps = [])
              \<or> (new_comps \<noteq> [] \<and> last new_comps = ''..'')
      then new_comps @ [cmp]
      else if new_comps \<noteq> [] then butlast new_comps
      else new_comps)"

definition os_path_normpath :: "string \<Rightarrow> string" where
  "os_path_normpath path =
     (if path = [] then ''.''
      else
        let initial_slashes =
              (if take 1 path = ''/'' then
                 (if take 2 path = ''//'' \<and> take 3 path \<noteq> ''///'' then 2 else 1)
               else (0::nat));
            comps = foldl (norm_step initial_slashes) [] (split_sep path);
            joined = replicate initial_slashes CHR ''/'' @ sep_join comps
        in if joined = [] then ''.'' else joined)"

section \<open>The environment and the trace\<close>

text \<open>
  The environment answers every question the program asks outside itself: the file
  system tests, the working directory (read by \<^verbatim>\<open>os.path.abspath\<close>), what
  \<^verbatim>\<open>subprocess.run(command, capture_output=True, text=True, check=True)\<close> does for a
  command (\<open>Inr\<close> the captured standard output, \<open>Inl\<close> the exception raised; a non-zero
  exit status is a \<open>CalledProcessError\<close> carrying the captured standard error), what
  \<^verbatim>\<open>json.loads\<close> does on a text, and what \<^verbatim>\<open>os.makedirs(d, exist_ok=True)\<close> does
  (\<open>None\<close> when it returns, \<open>Some\<close> the exception otherwise). Within one run every command
  is issued at most once, so a function of the command covers every combination of
  process outcomes.
\<close>

record env =
  isfile :: "string \<Rightarrow> bool"
  path_exists :: "string \<Rightarrow> bool"
  getcwd :: string
  subprocess_run :: "string list \<Rightarrow> exn + string"
  json_loads :: "string \<Rightarrow> exn + json"
  makedirs :: "string \<Rightarrow> exn option"

definition os_path_abspath :: "env \<Rightarrow> string \<Rightarrow> string" where
  "os_path_abspath e path =
     os_path_normpath (if take 1 path \<noteq> ''/'' then os_path_join (getcwd e) path else path)"

text \<open>
  One constructor for each \<^verbatim>\<open>print\<close> of the source, carrying the values its f-string
  interpolates (the fixed text is Japanese and is not reproduced).
\<close>

datatype message =
    MsgFfprobeNotFound
  | MsgFfprobeError exn
  | MsgFfprobeStderr string
  | MsgJsonParseFailed
  | MsgProbeUnexpected exn
  | MsgInputNotFound string
  | MsgProcessing string
  | MsgNoTracks string
  | MsgFoundTracks string int
  | MsgDirCreated string
  | MsgDirCreateFailed string exn
  | MsgExtracting nat string
  | MsgTrackDone nat
  | MsgFfmpegNotFound
  | MsgTrackError nat
  | MsgCommand string
  | MsgFfmpegStderr string
  | MsgErrorDetail exn
  | MsgTrackUnexpected nat exn
  | MsgAllDone nat
  | MsgOutputDir string
  | MsgPartial nat
  | MsgAllFailed

text \<open>
  The effects of a run, in the order they happen: a line on the console, a call of
  \<^verbatim>\<open>subprocess.run\<close> with its command, a call of \<^verbatim>\<open>os.makedirs\<close>. The program
  creates directories only through \<^verbatim>\<open>os.makedirs\<close> and files only through
  \<^verbatim>\<open>ffmpeg\<close>.
\<close>

datatype event =
    Print message
  | Run "string list"
  | MakeDirs string

section \<open>Stream inspector: \<^verbatim>\<open>get_audio_stream_count\<close>\<close>

definition ffprobe_command :: "string \<Rightarrow> string list" where
  "ffprobe_command filepath =
     [''ffprobe'', ''-v'', ''quiet'', ''-print_format'', ''json'', ''-show_streams'',
      ''-select_streams'', ''a'', filepath]"

text \<open>
  The body of the \<^verbatim>\<open>try\<close> (lines 25 to 27): run the probe, parse its output, read
  \<^verbatim>\<open>streams_info.get('streams', [])\<close> and take its \<^verbatim>\<open>len\<close>. Each of the four steps
  can raise.
\<close>

definition count_streams :: "env \<Rightarrow> string \<Rightarrow> exn + int" where
  "count_streams e filepath =
     (case subprocess_run e (ffprobe_command filepath) of
        Inl x \<Rightarrow> Inl x
      | Inr out \<Rightarrow>
          (case json_loads e out of
             Inl x \<Rightarrow> Inl x
           | Inr streams_info \<Rightarrow>
               (case py_get streams_info ''streams'' (JArr []) of
                  Inl x \<Rightarrow> Inl x
                | Inr v \<Rightarrow> (case py_len v of Inl x \<Rightarrow> Inl x | Inr n \<Rightarrow> Inr (int n)))))"

text \<open>
  The \<^verbatim>\<open>except\<close> clauses (lines 28 to 41), in the order of the source: what each
  prints. Every one of them returns \<open>-1\<close>.
\<close>

fun probe_handler :: "exn \<Rightarrow> event list" where
  "probe_handler (FileNotFoundError m) = [Print MsgFfprobeNotFound]"
| "probe_handler (CalledProcessError rc err) =
     Print (MsgFfprobeError (CalledProcessError rc err)) #
     (case err of
        None \<Rightarrow> []
      | Some s \<Rightarrow> if s \<noteq> [] then [Print (MsgFfprobeStderr (strip s))] else [])"
| "probe_handler (JSONDecodeError m) = [Print MsgJsonParseFailed]"
| "probe_handler x = [Print (MsgProbeUnexpected x)]"

definition get_audio_stream_count :: "env \<Rightarrow> string \<Rightarrow> int \<times> event list" where
  "get_audio_stream_count e filepath =
     (case count_streams e filepath of
        Inr n \<Rightarrow> (n, [Run (ffprobe_command filepath)])
      | Inl x \<Rightarrow> (- 1, Run (ffprobe_command filepath) # probe_handler x))"

section \<open>Track extractor: \<^verbatim>\<open>extract_audio_tracks\<close>\<close>

text \<open>How a call ends: it returns (\<^verbatim>\<open>None\<close>), or an exception leaves it.\<close>

datatype outcome = Returned | Raised exn

definition output_filename :: "string \<Rightarrow> nat \<Rightarrow> string" where
  "output_filename base_filename i = base_filename @ ''_track_'' @ str_of_nat i @ ''.wav''"

definition ffmpeg_command :: "string \<Rightarrow> nat \<Rightarrow> string \<Rightarrow> string list" where
  "ffmpeg_command mp4_filepath i output_filepath =
     [''ffmpeg'', ''-y'', ''-i'', mp4_filepath, ''-map'', ''0:a:'' @ str_of_nat i,
      ''-c:a'', ''pcm_s16le'', output_filepath]"

text \<open>
  Lines 69 to 79. Without a caller's directory the input file's own directory is taken
  and nothing is tested or created. A caller's directory that does not exist is created;
  the handler around \<^verbatim>\<open>os.makedirs\<close> is \<^verbatim>\<open>except OSError\<close>, so any other
  exception leaves \<^verbatim>\<open>extract_audio_tracks\<close>. \<open>Inr\<close> is the directory the loop uses,
  \<open>Inl\<close> how the call ended instead.
\<close>

definition resolve_output_dir :: "env \<Rightarrow> string \<Rightarrow> string option \<Rightarrow> (outcome + string) \<times> event list" where
  "resolve_output_dir e mp4_filepath output_dir =
     (case output_dir of
        None \<Rightarrow> (Inr (os_path_dirname (os_path_abspath e mp4_filepath)), [])
      | Some d \<Rightarrow>
          if \<not> path_exists e d then
            (case makedirs e d of
               None \<Rightarrow> (Inr d, [MakeDirs d, Print (MsgDirCreated d)])
             | Some x \<Rightarrow>
                 if is_OSError x then (Inl Returned, [MakeDirs d, Print (MsgDirCreateFailed d x)])
                 else (Inl (Raised x), [MakeDirs d]))
          else (Inr d, []))"

text \<open>
  The \<^verbatim>\<open>except\<close> clauses of the loop body (lines 105 to 118): \<^verbatim>\<open>FileNotFoundError\<close>
  returns from the function, the two others fall through to the next index.
\<close>

datatype step = Continue nat | Abort

fun track_handler :: "nat \<Rightarrow> string list \<Rightarrow> nat \<Rightarrow> exn \<Rightarrow> step \<times> event list" where
  "track_handler i command successful (FileNotFoundError m) = (Abort, [Print MsgFfmpegNotFound])"
| "track_handler i command successful (CalledProcessError rc err) =
     (Continue successful,
      [Print (MsgTrackError i), Print (MsgCommand (space_join command)),
       (case err of
          None \<Rightarrow> Print (MsgErrorDetail (CalledProcessError rc err))
        | Some s \<Rightarrow> if s \<noteq> [] then Print (MsgFfmpegStderr (strip s))
                    else Print (MsgErrorDetail (CalledProcessError rc err)))])"
| "track_handler i command successful x =
     (Continue successful,
      [Print (MsgTrackUnexpected i x), Print (MsgCommand (space_join command))])"

text \<open>One iteration of the loop (lines 84 to 118) at index \<open>i\<close>, the counter being \<open>successful\<close>.\<close>

definition extract_track :: "env \<Rightarrow> string \<Rightarrow> string \<Rightarrow> string \<Rightarrow> nat \<Rightarrow> nat \<Rightarrow> step \<times> event list" where
  "extract_track e mp4_filepath base_filename output_dir i successful =
     (let output_filepath = os_path_join output_dir (output_filename base_filename i);
          command = ffmpeg_command mp4_filepath i output_filepath
      in case subprocess_run e command of
           Inr out \<Rightarrow>
             (Continue (successful + 1),
              [Print (MsgExtracting i output_filepath), Run command, Print (MsgTrackDone i)])
         | Inl x \<Rightarrow>
             (case track_handler i command successful x of
                (st, evs) \<Rightarrow> (st, Print (MsgExtracting i output_filepath) # Run command # evs)))"

text \<open>
  The \<^verbatim>\<open>for\<close> loop over the indices still to do. \<open>None\<close>: the function returned from
  inside the loop; \<open>Some n\<close>: the loop was left with the counter at \<open>n\<close>.
\<close>

fun track_loop :: "env \<Rightarrow> string \<Rightarrow> string \<Rightarrow> string \<Rightarrow> nat list \<Rightarrow> nat \<Rightarrow> nat option \<times> event list" where
  "track_loop e mp4_filepath base_filename output_dir [] successful = (Some successful, [])"
| "track_loop e mp4_filepath base_filename output_dir (i # rest) successful =
     (case extract_track e mp4_filepath base_filename output_dir i successful of
        (Abort, evs) \<Rightarrow> (None, evs)
      | (Continue successful', evs) \<Rightarrow>
          (case track_loop e mp4_filepath base_filename output_dir rest successful' of
             (r, evs') \<Rightarrow> (r, evs @ evs')))"

text \<open>The summary after the loop (lines 121 to 128).\<close>

definition summary :: "env \<Rightarrow> string \<Rightarrow> nat \<Rightarrow> int \<Rightarrow> event list" where
  "summary e output_dir successful num_audio_tracks =
     (if int successful = num_audio_tracks \<and> num_audio_tracks > 0 then
        [Print (MsgAllDone successful), Print (MsgOutputDir (os_path_abspath e output_dir))]
      else if successful > 0 then
        [Print (MsgPartial successful), Print (MsgOutputDir (os_path_abspath e output_dir))]
      else if num_audio_tracks > 0 then [Print MsgAllFailed]
      else [])"

definition extract_audio_tracks :: "env \<Rightarrow> string \<Rightarrow> string option \<Rightarrow> outcome \<times> event list" where
  "extract_audio_tracks e mp4_filepath output_dir =
     (if \<not> isfile e mp4_filepath then (Returned, [Print (MsgInputNotFound mp4_filepath)])
      else
        case get_audio_stream_count e mp4_filepath of
          (num_audio_tracks, probe_evs) \<Rightarrow>
            if num_audio_tracks \<le> 0 then
              (Returned,
               Print (MsgProcessing mp4_filepath) # probe_evs @
               (if num_audio_tracks = 0 then [Print (MsgNoTracks mp4_filepath)] else []))
            else
              let base_filename = fst (os_path_splitext (os_path_basename mp4_filepath));
                  head = Print (MsgProcessing mp4_filepath) # probe_evs @
                         [Print (MsgFoundTracks mp4_filepath num_audio_tracks)]
              in case resolve_output_dir e mp4_filepath output_dir of
                   (Inl ending, dir_evs) \<Rightarrow> (ending, head @ dir_evs)
                 | (Inr dir, dir_evs) \<Rightarrow>
                     (case track_loop e mp4_filepath base_filename dir
                             (py_range num_audio_tracks) 0 of
                        (None, loop_evs) \<Rightarrow> (Returned, head @ dir_evs @ loop_evs)
                      | (Some successful, loop_evs) \<Rightarrow>
                          (Returned,
                           head @ dir_evs @ loop_evs @
                           summary e dir successful num_audio_tracks)))"

section \<open>Observations on a trace\<close>

text \<open>The commands of the \<^verbatim>\<open>subprocess.run\<close> calls, in order.\<close>

fun runs :: "event list \<Rightarrow> string list list" where
  "runs [] = []"
| "runs (Run c # evs) = c # runs evs"
| "runs (ev # evs) = runs evs"

text \<open>The extraction attempts: the calls whose program is \<^verbatim>\<open>ffmpeg\<close>.\<close>

definition attempts :: "event list \<Rightarrow> string list list" where
  "attempts evs = filter (\<lambda>c. take 1 c = [''ffmpeg'']) (runs evs)"

text \<open>The directories \<^verbatim>\<open>os.makedirs\<close> was called on.\<close>

fun created :: "event list \<Rightarrow> string list" where
  "created [] = []"
| "created (MakeDirs d # evs) = d # created evs"
| "created (ev # evs) = created evs"

text \<open>The console.\<close>

fun printed :: "event list \<Rightarrow> message list" where
  "printed [] = []"
| "printed (Print m # evs) = m # printed evs"
| "printed (ev # evs) = printed evs"

section \<open>Notions used to state the properties\<close>

text \<open>The base name of the input with its extension stripped (line 67).\<close>

abbreviation base_of :: "string \<Rightarrow> string" where
  "base_of mp4_filepath \<equiv> fst (os_path_splitext (os_path_basename mp4_filepath))"

text \<open>The command of the loop at index \<open>i\<close> (lines 84 to 97).\<close>

abbreviation track_command :: "string \<Rightarrow> string \<Rightarrow> string \<Rightarrow> nat \<Rightarrow> string list" where
  "track_command mp4_filepath base_filename output_dir i \<equiv>
     ffmpeg_command mp4_filepath i (os_path_join output_dir (output_filename base_filename i))"

text \<open>The value of \<^verbatim>\<open>output_dir\<close> once lines 69 to 71 have run.\<close>

definition output_dir_of :: "env \<Rightarrow> string \<Rightarrow> string option \<Rightarrow> string" where
  "output_dir_of e mp4_filepath output_dir =
     (case output_dir of None \<Rightarrow> os_path_dirname (os_path_abspath e mp4_filepath) | Some d \<Rightarrow> d)"

text \<open>The binary of a command is not found: \<^verbatim>\<open>subprocess.run\<close> raises \<^verbatim>\<open>FileNotFoundError\<close>.\<close>

definition missing :: "env \<Rightarrow> string list \<Rightarrow> bool" where
  "missing e c = (case subprocess_run e c of Inl x \<Rightarrow> is_FileNotFoundError x | Inr out \<Rightarrow> False)"

text \<open>The process of a command exits with status 0.\<close>

definition succeeds :: "env \<Rightarrow> string list \<Rightarrow> bool" where
  "succeeds e c = (case subprocess_run e c of Inl x \<Rightarrow> False | Inr out \<Rightarrow> True)"

text \<open>The indices of a list up to and including the first one that satisfies \<open>P\<close>.\<close>

fun upto_missing :: "(nat \<Rightarrow> bool) \<Rightarrow> nat list \<Rightarrow> nat list" where
  "upto_missing P [] = []"
| "upto_missing P (i # rest) = (if P i then [i] else i # upto_missing P rest)"

text \<open>The three summary lines (lines 122, 125 and 128).\<close>

fun is_summary :: "message \<Rightarrow> bool" where
  "is_summary (MsgAllDone n) = True"
| "is_summary (MsgPartial n) = True"
| "is_summary MsgAllFailed = True"
| "is_summary m = False"

text \<open>
  Lines 69 to 79 leave a directory to write into: none was supplied, or the supplied
  one exists, or \<^verbatim>\<open>os.makedirs\<close> returns.
\<close>

definition dir_available :: "env \<Rightarrow> string option \<Rightarrow> bool" where
  "dir_available e output_dir =
     (case output_dir of None \<Rightarrow> True | Some d \<Rightarrow> path_exists e d \<or> makedirs e d = None)"

text \<open>
  The number of indices of \<^verbatim>\<open>range(num_audio_tracks)\<close> whose \<^verbatim>\<open>ffmpeg\<close> call
  exits with status 0: the value of the success counter when the loop runs to its end.
\<close>

definition successes :: "env \<Rightarrow> string \<Rightarrow> string \<Rightarrow> int \<Rightarrow> nat" where
  "successes e mp4_filepath output_dir num_audio_tracks =
     length (filter (\<lambda>i. succeeds e (track_command mp4_filepath (base_of mp4_filepath) output_dir i))
               (py_range num_audio_tracks))"

section \<open>Example runs\<close>

text \<open>
  Concrete environments on which the properties below are evaluated: one input file, in
  all but one of them \<^verbatim>\<open>movie.mp4\<close> in the working directory \<^verbatim>\<open>/home/user\<close>;
  the working directory is the only directory that exists.
\<close>

definition world :: "string \<Rightarrow> string \<Rightarrow> (string list \<Rightarrow> exn + string) \<Rightarrow> exn + json \<Rightarrow> exn option \<Rightarrow> env" where
  "world file cwd run parsed mk =
     \<lparr>isfile = (\<lambda>p. p = file), path_exists = (\<lambda>d. d = cwd), getcwd = cwd,
      subprocess_run = run, json_loads = (\<lambda>s. parsed), makedirs = (\<lambda>d. mk)\<rparr>"

text \<open>The parsed probe output for \<open>n\<close> audio streams.\<close>

definition streams_json :: "nat \<Rightarrow> json" where
  "streams_json n = JObj [(''streams'', JArr (replicate n (JObj [(''codec_type'', JStr ''audio'')])))]"

text \<open>Both tools are installed and every call succeeds; the probe finds three streams.\<close>

definition movie_env :: env where
  "movie_env = world ''movie.mp4'' ''/home/user'' (\<lambda>c. Inr []) (Inr (streams_json 3)) None"

text \<open>\<^verbatim>\<open>ffprobe\<close> is not installed.\<close>

definition noprobe_env :: env where
  "noprobe_env = world ''movie.mp4'' ''/home/user''
     (\<lambda>c. if take 1 c = [''ffprobe''] then Inl (FileNotFoundError ''ffprobe'') else Inr [])
     (Inr (streams_json 3)) None"

text \<open>The probe answers with an object that has no \<^verbatim>\<open>streams\<close> key.\<close>

definition silent_env :: env where
  "silent_env = world ''movie.mp4'' ''/home/user'' (\<lambda>c. Inr []) (Inr (JObj [])) None"

text \<open>\<^verbatim>\<open>ffprobe\<close> exits with a non-zero status.\<close>

definition badexit_env :: env where
  "badexit_env = world ''movie.mp4'' ''/home/user''
     (\<lambda>c. if take 1 c = [''ffprobe'']
          then Inl (CalledProcessError 1 (Some ''movie.mp4: Invalid data found when processing input''))
          else Inr [])
     (Inr (streams_json 3)) None"

text \<open>The probe output is not JSON.\<close>

definition garbled_env :: env where
  "garbled_env = world ''movie.mp4'' ''/home/user'' (\<lambda>c. Inr [])
     (Inl (JSONDecodeError ''Expecting value: line 1 column 1 (char 0)'')) None"

text \<open>The probe output is JSON, but a list instead of an object.\<close>

definition listy_env :: env where
  "listy_env = world ''movie.mp4'' ''/home/user'' (\<lambda>c. Inr []) (Inr (JArr [])) None"

text \<open>Two streams; \<^verbatim>\<open>ffmpeg\<close> exits with a non-zero status on track 0.\<close>

definition flaky_env :: env where
  "flaky_env = world ''movie.mp4'' ''/home/user''
     (\<lambda>c. if drop 5 (take 6 c) = [''0:a:0'']
          then Inl (CalledProcessError 1 (Some ''Conversion failed!''))
          else Inr [])
     (Inr (streams_json 2)) None"

text \<open>Two streams; \<^verbatim>\<open>ffmpeg\<close> is not installed.\<close>

definition nobin_env :: env where
  "nobin_env = world ''movie.mp4'' ''/home/user''
     (\<lambda>c. if take 1 c = [''ffmpeg''] then Inl (FileNotFoundError ''ffmpeg'') else Inr [])
     (Inr (streams_json 2)) None"

text \<open>Two streams; no directory can be created (\<^verbatim>\<open>PermissionError\<close>).\<close>

definition denied_env :: env where
  "denied_env = world ''movie.mp4'' ''/home/user'' (\<lambda>c. Inr []) (Inr (streams_json 2))
     (Some (OSError ''[Errno 13] Permission denied''))"

text \<open>
  The input is reached through a symbolic link \<^verbatim>\<open>L\<close> followed by \<^verbatim>\<open>..\<close>: the file
  exists, while \<^verbatim>\<open>os.path.abspath\<close>, which removes \<^verbatim>\<open>L/..\<close> textually, names a
  directory \<^verbatim>\<open>/w/d\<close> that does not exist. One stream.
\<close>

definition detour_env :: env where
  "detour_env = world ''L/../d/f.mp4'' ''/w'' (\<lambda>c. Inr []) (Inr (streams_json 1)) None"

text \<open>
  One stream; \<^verbatim>\<open>os.makedirs\<close> creates what it is asked for, and raises
  \<^verbatim>\<open>ValueError\<close>, as Python does, on a path that holds a null character.
\<close>

definition nul_env :: env where
  "nul_env =
     \<lparr>isfile = (\<lambda>p. p = ''movie.mp4''), path_exists = (\<lambda>d. d = ''/home/user''),
      getcwd = ''/home/user'', subprocess_run = (\<lambda>c. Inr []),
      json_loads = (\<lambda>s. Inr (streams_json 1)),
      makedirs = (\<lambda>d. if CHR 0x00 \<in> set d then Some (ValueError ''embedded null byte'')
                      else None)\<rparr>"

text \<open>Two streams; \<^verbatim>\<open>ffmpeg\<close> exits with a non-zero status on every track.\<close>

definition allfail_env :: env where
  "allfail_env = world ''movie.mp4'' ''/home/user''
     (\<lambda>c. if take 1 c = [''ffmpeg''] then Inl (CalledProcessError 1 None) else Inr [])
     (Inr (streams_json 2)) None"

section \<open>Formatting and paths\<close>

lemma digit_char_inj: "a < 10 \<Longrightarrow> b < 10 \<Longrightarrow> digit_char a = digit_char b \<Longrightarrow> a = b"
proof -
  assume a: "a < 10" and b: "b < 10" and eq: "digit_char a = digit_char b"
  have d: "distinct ''0123456789''" by simp
  have l: "length ''0123456789'' = 10" by simp
  from a b l have "a < length ''0123456789''" "b < length ''0123456789''" by simp_all
  with d eq show "a = b" unfolding digit_char_def by (simp only: nth_eq_iff_index_eq)
qed

lemma str_of_nat_not_Nil: "str_of_nat n \<noteq> []" "[] \<noteq> str_of_nat n"
  by (subst str_of_nat.simps, simp)+

lemma str_of_nat_inj: "str_of_nat a = str_of_nat b \<Longrightarrow> a = b"
proof (induction a arbitrary: b rule: str_of_nat.induct)
  case (1 n)
  show ?case
  proof (cases "n < 10")
    case small: True
    show ?thesis
    proof (cases "b < 10")
      case True
      with small "1.prems" show ?thesis
        by (simp add: str_of_nat.simps [of n] str_of_nat.simps [of b] digit_char_inj)
    next
      case False
      with small "1.prems" show ?thesis
        by (simp add: str_of_nat.simps [of n] str_of_nat.simps [of b] str_of_nat_not_Nil)
    qed
  next
    case big: False
    show ?thesis
    proof (cases "b < 10")
      case True
      with big "1.prems" show ?thesis
        by (simp add: str_of_nat.simps [of n] str_of_nat.simps [of b] str_of_nat_not_Nil)
    next
      case False
      with big "1.prems" have q: "str_of_nat (n div 10) = str_of_nat (b div 10)"
        and r: "digit_char (n mod 10) = digit_char (b mod 10)"
        by (simp_all add: str_of_nat.simps [of n] str_of_nat.simps [of b])
      from "1.IH" [OF big q] have "n div 10 = b div 10" .
      moreover from r have "n mod 10 = b mod 10" by (simp add: digit_char_inj)
      ultimately show ?thesis by (metis div_mult_mod_eq)
    qed
  qed
qed

lemma output_filename_inj: "output_filename base i = output_filename base j \<Longrightarrow> i = j"
  by (simp add: output_filename_def str_of_nat_inj)

lemma os_path_join_filename_inj:
  "os_path_join d (output_filename base i) = os_path_join d (output_filename base j) \<Longrightarrow> i = j"
proof -
  assume eq: "os_path_join d (output_filename base i) = os_path_join d (output_filename base j)"
  have hd: "take 1 (output_filename base i) = take 1 (output_filename base j)"
    by (cases base) (simp_all add: output_filename_def)
  from eq hd have "output_filename base i = output_filename base j"
    by (simp add: os_path_join_def split: if_splits)
  then show "i = j" by (rule output_filename_inj)
qed

lemma ffmpeg_command_inj: "ffmpeg_command mp4 i p = ffmpeg_command mp4 j q \<Longrightarrow> i = j"
  by (simp add: ffmpeg_command_def str_of_nat_inj)


section \<open>Traces of the loop\<close>

lemma runs_append: "runs (xs @ ys) = runs xs @ runs ys"
  by (induction xs rule: runs.induct) simp_all

lemma created_append: "created (xs @ ys) = created xs @ created ys"
  by (induction xs rule: created.induct) simp_all

lemma printed_append: "printed (xs @ ys) = printed xs @ printed ys"
  by (induction xs rule: printed.induct) simp_all

lemma attempts_append: "attempts (xs @ ys) = attempts xs @ attempts ys"
  by (simp add: attempts_def runs_append)

lemma track_handler_step:
  "fst (track_handler i c s x) = (if is_FileNotFoundError x then Abort else Continue s)"
  by (cases x) simp_all

lemma track_handler_quiet:
  "runs (snd (track_handler i c s x)) = [] \<and> created (snd (track_handler i c s x)) = []"
  by (cases x) (simp_all split: option.splits)

lemma track_handler_summary:
  "filter is_summary (printed (snd (track_handler i c s x))) = []"
  by (cases x) (simp_all split: option.splits)

lemma track_handler_last:
  "is_FileNotFoundError x \<Longrightarrow> snd (track_handler i c s x) = [Print MsgFfmpegNotFound]"
  by (cases x) simp_all

lemma extract_track_step:
  "fst (extract_track e mp4 base d i s) =
     (if missing e (track_command mp4 base d i) then Abort
      else Continue (if succeeds e (track_command mp4 base d i) then s + 1 else s))"
  using track_handler_step
  by (simp add: extract_track_def missing_def succeeds_def Let_def case_prod_beta split: sum.splits)

lemma extract_track_runs:
  "runs (snd (extract_track e mp4 base d i s)) = [track_command mp4 base d i]"
  using track_handler_quiet
  by (simp add: extract_track_def Let_def case_prod_beta split: sum.splits)

lemma extract_track_created:
  "created (snd (extract_track e mp4 base d i s)) = []"
  using track_handler_quiet
  by (simp add: extract_track_def Let_def case_prod_beta split: sum.splits)

lemma extract_track_summary:
  "filter is_summary (printed (snd (extract_track e mp4 base d i s))) = []"
  using track_handler_summary
  by (simp add: extract_track_def Let_def case_prod_beta split: sum.splits)

lemma extract_track_last:
  "missing e (track_command mp4 base d i) \<Longrightarrow>
   snd (extract_track e mp4 base d i s) =
     [Print (MsgExtracting i (os_path_join d (output_filename base i))),
      Run (track_command mp4 base d i), Print MsgFfmpegNotFound]"
  using track_handler_last
  by (simp add: extract_track_def missing_def Let_def case_prod_beta split: sum.splits)

lemma track_loop_runs:
  "runs (snd (track_loop e mp4 base d is s)) =
     map (track_command mp4 base d) (upto_missing (\<lambda>i. missing e (track_command mp4 base d i)) is)"
proof (induction "is" arbitrary: s)
  case Nil
  show ?case by simp
next
  case (Cons i rest)
  show ?case
    using extract_track_step extract_track_runs
      Cons.IH
    by (simp add: runs_append case_prod_beta split: step.splits)
qed

lemma track_loop_created: "created (snd (track_loop e mp4 base d is s)) = []"
proof (induction "is" arbitrary: s)
  case Nil
  show ?case by simp
next
  case (Cons i rest)
  show ?case
    using extract_track_created Cons.IH
    by (simp add: created_append case_prod_beta split: step.splits)
qed

lemma track_loop_summary: "filter is_summary (printed (snd (track_loop e mp4 base d is s))) = []"
proof (induction "is" arbitrary: s)
  case Nil
  show ?case by simp
next
  case (Cons i rest)
  show ?case
    using extract_track_summary Cons.IH
    by (simp add: printed_append case_prod_beta split: step.splits)
qed

lemma track_loop_result:
  "fst (track_loop e mp4 base d is s) =
     (if \<exists>i \<in> set is. missing e (track_command mp4 base d i) then None
      else Some (s + length (filter (\<lambda>i. succeeds e (track_command mp4 base d i)) is)))"
proof (induction "is" arbitrary: s)
  case Nil
  show ?case by simp
next
  case (Cons i rest)
  show ?case
    using extract_track_step Cons.IH
    by (simp add: case_prod_beta split: step.splits)
qed

lemma track_loop_halted:
  "fst (track_loop e mp4 base d is s) = None \<Longrightarrow>
   \<exists>pre i. missing e (track_command mp4 base d i) \<and>
     snd (track_loop e mp4 base d is s) =
       pre @ [Run (track_command mp4 base d i), Print MsgFfmpegNotFound]"
proof (induction "is" arbitrary: s)
  case Nil
  then show ?case by simp
next
  case (Cons i rest)
  show ?case
  proof (cases "missing e (track_command mp4 base d i)")
    case True
    with extract_track_step extract_track_last
    have "snd (track_loop e mp4 base d (i # rest) s) =
        [Print (MsgExtracting i (os_path_join d (output_filename base i)))] @
        [Run (track_command mp4 base d i), Print MsgFfmpegNotFound]"
      by (simp add: case_prod_beta split: step.splits)
    with True show ?thesis by blast
  next
    case False
    from False have "fst (extract_track e mp4 base d i s) =
        Continue (if succeeds e (track_command mp4 base d i) then s + 1 else s)"
      by (simp add: extract_track_step)
    then obtain s' evs where st: "extract_track e mp4 base d i s = (Continue s', evs)"
      by (cases "extract_track e mp4 base d i s") auto
    obtain r evs' where r: "track_loop e mp4 base d rest s' = (r, evs')"
      by (cases "track_loop e mp4 base d rest s'")
    from st r Cons.prems have "r = None" by simp
    with r Cons.IH [of s'] obtain pre j
      where j: "missing e (track_command mp4 base d j)"
        and "evs' = pre @ [Run (track_command mp4 base d j), Print MsgFfmpegNotFound]"
      by auto
    with st r have "snd (track_loop e mp4 base d (i # rest) s) =
        (evs @ pre) @ [Run (track_command mp4 base d j), Print MsgFfmpegNotFound]"
      by simp
    with j show ?thesis by blast
  qed
qed

section \<open>Traces of a whole run\<close>

lemma attempts_simps:
  "attempts [] = []"
  "attempts (Print m # evs) = attempts evs"
  "attempts (MakeDirs d # evs) = attempts evs"
  "attempts (Run c # evs) = (if take 1 c = [''ffmpeg''] then c # attempts evs else attempts evs)"
  by (simp_all add: attempts_def)

lemma probe_handler_quiet: "runs (probe_handler x) = [] \<and> created (probe_handler x) = []"
  by (cases x) (simp_all split: option.splits)

lemma probe_handler_printed: "printed (probe_handler x) \<noteq> []"
  by (cases x) simp_all

lemma get_audio_stream_count_runs:
  "runs (snd (get_audio_stream_count e p)) = [ffprobe_command p]"
  by (simp add: get_audio_stream_count_def probe_handler_quiet split: sum.splits)

lemma get_audio_stream_count_created:
  "created (snd (get_audio_stream_count e p)) = []"
  by (simp add: get_audio_stream_count_def probe_handler_quiet split: sum.splits)

lemma get_audio_stream_count_attempts:
  "attempts (snd (get_audio_stream_count e p)) = []"
  by (simp add: attempts_def get_audio_stream_count_runs) (simp add: ffprobe_command_def)

lemma count_streams_nonneg: "count_streams e p = Inr n \<Longrightarrow> 0 \<le> n"
  by (auto simp: count_streams_def split: sum.splits)

section \<open>The input file does not exist\<close>

text \<open>
  C7. When the input path is not an existing regular file, \<^verbatim>\<open>extract_audio_tracks\<close>
  prints one error message and returns: no external tool is invoked (no call of
  \<^verbatim>\<open>subprocess.run\<close>, neither probe nor transcode), no directory is created, and,
  files being written by \<^verbatim>\<open>ffmpeg\<close> only, no output file is created.
\<close>

theorem missing_input_does_nothing:
  "\<not> isfile e mp4 \<Longrightarrow>
   extract_audio_tracks e mp4 odir = (Returned, [Print (MsgInputNotFound mp4)]) \<and>
   runs (snd (extract_audio_tracks e mp4 odir)) = [] \<and>
   created (snd (extract_audio_tracks e mp4 odir)) = []"
  by (simp add: extract_audio_tracks_def)

theorem missing_input_does_nothing_witness:
  "\<not> isfile movie_env ''absent.mp4'' \<and>
   extract_audio_tracks movie_env ''absent.mp4'' (Some ''out'') =
     (Returned, [Print (MsgInputNotFound ''absent.mp4'')]) \<and>
   runs (snd (extract_audio_tracks movie_env ''absent.mp4'' (Some ''out''))) = [] \<and>
   created (snd (extract_audio_tracks movie_env ''absent.mp4'' (Some ''out''))) = []"
proof -
  have h: "\<not> isfile movie_env ''absent.mp4''" by (simp add: movie_env_def world_def)
  from h missing_input_does_nothing [OF h, of "Some ''out''"] show ?thesis by simp
qed

section \<open>No track, or no answer from the probe\<close>

lemma silent_count:
  "get_audio_stream_count silent_env ''movie.mp4'' = (0, [Run (ffprobe_command ''movie.mp4'')])"
  by (simp add: get_audio_stream_count_def count_streams_def silent_env_def world_def)

lemma noprobe_count:
  "get_audio_stream_count noprobe_env ''movie.mp4'' =
     (- 1, [Run (ffprobe_command ''movie.mp4''), Print MsgFfprobeNotFound])"
  by (simp add: get_audio_stream_count_def count_streams_def noprobe_env_def world_def
      ffprobe_command_def)

text \<open>
  C8. When \<^verbatim>\<open>get_audio_stream_count\<close> returns 0, the run prints that no track was
  found and returns: the trace is the processing line, the probe, and that message, so
  there is no transcode invocation and no directory is created (hence no output file).
  When it returns the sentinel \<open>-1\<close>, the run returns as well, with no extraction
  attempt, and nothing follows the inspector's own events in the trace: the extractor
  prints no message of its own after the inspector has failed.
\<close>

theorem no_tracks_or_failed_probe_stops:
  "isfile e mp4 \<Longrightarrow>
   (fst (get_audio_stream_count e mp4) = 0 \<longrightarrow>
      extract_audio_tracks e mp4 odir =
        (Returned, Print (MsgProcessing mp4) # snd (get_audio_stream_count e mp4) @
                   [Print (MsgNoTracks mp4)]) \<and>
      attempts (snd (extract_audio_tracks e mp4 odir)) = [] \<and>
      created (snd (extract_audio_tracks e mp4 odir)) = []) \<and>
   (fst (get_audio_stream_count e mp4) = - 1 \<longrightarrow>
      extract_audio_tracks e mp4 odir =
        (Returned, Print (MsgProcessing mp4) # snd (get_audio_stream_count e mp4)) \<and>
      attempts (snd (extract_audio_tracks e mp4 odir)) = [] \<and>
      created (snd (extract_audio_tracks e mp4 odir)) = [])"
  by (simp add: extract_audio_tracks_def case_prod_beta attempts_append created_append
      get_audio_stream_count_attempts get_audio_stream_count_created attempts_simps)

theorem no_tracks_or_failed_probe_stops_witness:
  "isfile silent_env ''movie.mp4'' \<and>
   fst (get_audio_stream_count silent_env ''movie.mp4'') = 0 \<and>
   extract_audio_tracks silent_env ''movie.mp4'' (Some ''out'') =
     (Returned, [Print (MsgProcessing ''movie.mp4''), Run (ffprobe_command ''movie.mp4''),
                 Print (MsgNoTracks ''movie.mp4'')]) \<and>
   created (snd (extract_audio_tracks silent_env ''movie.mp4'' (Some ''out''))) = [] \<and>
   isfile noprobe_env ''movie.mp4'' \<and>
   fst (get_audio_stream_count noprobe_env ''movie.mp4'') = - 1 \<and>
   extract_audio_tracks noprobe_env ''movie.mp4'' (Some ''out'') =
     (Returned, [Print (MsgProcessing ''movie.mp4''), Run (ffprobe_command ''movie.mp4''),
                 Print MsgFfprobeNotFound]) \<and>
   attempts (snd (extract_audio_tracks noprobe_env ''movie.mp4'' (Some ''out''))) = []"
proof -
  have f1: "isfile silent_env ''movie.mp4''" by (simp add: silent_env_def world_def)
  have f2: "isfile noprobe_env ''movie.mp4''" by (simp add: noprobe_env_def world_def)
  from f1 f2 no_tracks_or_failed_probe_stops [OF f1, of "Some ''out''"]
    no_tracks_or_failed_probe_stops [OF f2, of "Some ''out''"]
  show ?thesis by (simp add: silent_count noprobe_count attempts_simps ffprobe_command_def)
qed

text \<open>
  C10. When the probe exits with status 0 and its output parses to a JSON object that has
  no \<^verbatim>\<open>streams\<close> key, \<^verbatim>\<open>get_audio_stream_count\<close> returns 0, not \<open>-1\<close>, and
  prints nothing; \<^verbatim>\<open>extract_audio_tracks\<close> then reports that no track was found and
  neither creates a directory nor runs \<^verbatim>\<open>ffmpeg\<close>.
\<close>

theorem probe_without_streams_key:
  "subprocess_run e (ffprobe_command p) = Inr out \<Longrightarrow>
   json_loads e out = Inr (JObj kvs) \<Longrightarrow>
   ''streams'' \<notin> fst ` set kvs \<Longrightarrow>
   get_audio_stream_count e p = (0, [Run (ffprobe_command p)]) \<and>
   (isfile e p \<longrightarrow>
      extract_audio_tracks e p odir =
        (Returned, [Print (MsgProcessing p), Run (ffprobe_command p), Print (MsgNoTracks p)]))"
proof -
  assume r: "subprocess_run e (ffprobe_command p) = Inr out"
    and j: "json_loads e out = Inr (JObj kvs)"
    and k: "''streams'' \<notin> fst ` set kvs"
  from k have "map_of kvs ''streams'' = None" by (simp add: map_of_eq_None_iff)
  with r j have c: "get_audio_stream_count e p = (0, [Run (ffprobe_command p)])"
    by (simp add: get_audio_stream_count_def count_streams_def)
  then show ?thesis by (simp add: extract_audio_tracks_def)
qed

theorem probe_without_streams_key_witness:
  "subprocess_run silent_env (ffprobe_command ''movie.mp4'') = Inr [] \<and>
   json_loads silent_env [] = Inr (JObj []) \<and>
   ''streams'' \<notin> fst ` set ([] :: (string \<times> json) list) \<and>
   isfile silent_env ''movie.mp4'' \<and>
   get_audio_stream_count silent_env ''movie.mp4'' = (0, [Run (ffprobe_command ''movie.mp4'')]) \<and>
   extract_audio_tracks silent_env ''movie.mp4'' None =
     (Returned, [Print (MsgProcessing ''movie.mp4''), Run (ffprobe_command ''movie.mp4''),
                 Print (MsgNoTracks ''movie.mp4'')])"
proof -
  have r: "subprocess_run silent_env (ffprobe_command ''movie.mp4'') = Inr []"
    by (simp add: silent_env_def world_def)
  have j: "json_loads silent_env [] = Inr (JObj [])" by (simp add: silent_env_def world_def)
  have k: "''streams'' \<notin> fst ` set ([] :: (string \<times> json) list)" by simp
  have f: "isfile silent_env ''movie.mp4''" by (simp add: silent_env_def world_def)
  from r j k f probe_without_streams_key [OF r j k, of None] show ?thesis by simp
qed

section \<open>The result of the stream inspector\<close>

text \<open>
  C5. \<^verbatim>\<open>get_audio_stream_count\<close> returns a non-negative integer or \<open>-1\<close>. When the
  body of its \<^verbatim>\<open>try\<close> returns \<open>n\<close>, the result is \<open>n\<close> (the length of the
  \<^verbatim>\<open>streams\<close> list of the parsed output) and nothing is printed. When the body raises,
  the result is \<open>-1\<close> and something is printed, and each of the four handlers is
  reached: a missing \<^verbatim>\<open>ffprobe\<close> binary, a non-zero exit status, output that does not
  parse, and any exception of another class. The result is a value in every case, so no
  exception reaches the caller.
\<close>

theorem stream_count_or_sentinel:
  "(fst (get_audio_stream_count e p) = - 1 \<or> 0 \<le> fst (get_audio_stream_count e p)) \<and>
   (\<forall>n. count_streams e p = Inr n \<longrightarrow>
      get_audio_stream_count e p = (n, [Run (ffprobe_command p)]) \<and> 0 \<le> n) \<and>
   (\<forall>x. count_streams e p = Inl x \<longrightarrow>
      fst (get_audio_stream_count e p) = - 1 \<and>
      printed (snd (get_audio_stream_count e p)) \<noteq> []) \<and>
   (\<forall>m. subprocess_run e (ffprobe_command p) = Inl (FileNotFoundError m) \<longrightarrow>
      get_audio_stream_count e p = (- 1, [Run (ffprobe_command p), Print MsgFfprobeNotFound])) \<and>
   (\<forall>rc err. subprocess_run e (ffprobe_command p) = Inl (CalledProcessError rc err) \<longrightarrow>
      fst (get_audio_stream_count e p) = - 1 \<and>
      take 2 (snd (get_audio_stream_count e p)) =
        [Run (ffprobe_command p), Print (MsgFfprobeError (CalledProcessError rc err))]) \<and>
   (\<forall>out m. subprocess_run e (ffprobe_command p) = Inr out \<and>
      json_loads e out = Inl (JSONDecodeError m) \<longrightarrow>
      get_audio_stream_count e p = (- 1, [Run (ffprobe_command p), Print MsgJsonParseFailed])) \<and>
   (\<forall>x. count_streams e p = Inl x \<and> (\<forall>m. x \<noteq> FileNotFoundError m) \<and>
      (\<forall>rc err. x \<noteq> CalledProcessError rc err) \<and> (\<forall>m. x \<noteq> JSONDecodeError m) \<longrightarrow>
      get_audio_stream_count e p =
        (- 1, [Run (ffprobe_command p), Print (MsgProbeUnexpected x)])) \<and>
   (\<forall>out kvs xs. subprocess_run e (ffprobe_command p) = Inr out \<and>
      json_loads e out = Inr (JObj kvs) \<and> map_of kvs ''streams'' = Some (JArr xs) \<longrightarrow>
      fst (get_audio_stream_count e p) = int (length xs))"
proof -
  have a: "fst (get_audio_stream_count e p) = - 1 \<or> 0 \<le> fst (get_audio_stream_count e p)"
    using count_streams_nonneg [of e p]
    by (cases "count_streams e p") (simp_all add: get_audio_stream_count_def)
  have b: "\<forall>n. count_streams e p = Inr n \<longrightarrow>
      get_audio_stream_count e p = (n, [Run (ffprobe_command p)]) \<and> 0 \<le> n"
    using count_streams_nonneg [of e p] by (simp add: get_audio_stream_count_def)
  have c: "\<forall>x. count_streams e p = Inl x \<longrightarrow>
      fst (get_audio_stream_count e p) = - 1 \<and>
      printed (snd (get_audio_stream_count e p)) \<noteq> []"
    by (simp add: get_audio_stream_count_def probe_handler_printed)
  have d: "\<forall>m. subprocess_run e (ffprobe_command p) = Inl (FileNotFoundError m) \<longrightarrow>
      get_audio_stream_count e p = (- 1, [Run (ffprobe_command p), Print MsgFfprobeNotFound])"
    by (simp add: get_audio_stream_count_def count_streams_def)
  have f: "\<forall>rc err. subprocess_run e (ffprobe_command p) = Inl (CalledProcessError rc err) \<longrightarrow>
      fst (get_audio_stream_count e p) = - 1 \<and>
      take 2 (snd (get_audio_stream_count e p)) =
        [Run (ffprobe_command p), Print (MsgFfprobeError (CalledProcessError rc err))]"
    by (simp add: get_audio_stream_count_def count_streams_def)
  have g: "\<forall>out m. subprocess_run e (ffprobe_command p) = Inr out \<and>
      json_loads e out = Inl (JSONDecodeError m) \<longrightarrow>
      get_audio_stream_count e p = (- 1, [Run (ffprobe_command p), Print MsgJsonParseFailed])"
    by (simp add: get_audio_stream_count_def count_streams_def)
  have h: "\<forall>x. count_streams e p = Inl x \<and> (\<forall>m. x \<noteq> FileNotFoundError m) \<and>
      (\<forall>rc err. x \<noteq> CalledProcessError rc err) \<and> (\<forall>m. x \<noteq> JSONDecodeError m) \<longrightarrow>
      get_audio_stream_count e p =
        (- 1, [Run (ffprobe_command p), Print (MsgProbeUnexpected x)])"
  proof (intro allI impI)
    fix x
    assume "count_streams e p = Inl x \<and> (\<forall>m. x \<noteq> FileNotFoundError m) \<and>
      (\<forall>rc err. x \<noteq> CalledProcessError rc err) \<and> (\<forall>m. x \<noteq> JSONDecodeError m)"
    then show "get_audio_stream_count e p =
        (- 1, [Run (ffprobe_command p), Print (MsgProbeUnexpected x)])"
      by (cases x) (simp_all add: get_audio_stream_count_def)
  qed
  have i: "\<forall>out kvs xs. subprocess_run e (ffprobe_command p) = Inr out \<and>
      json_loads e out = Inr (JObj kvs) \<and> map_of kvs ''streams'' = Some (JArr xs) \<longrightarrow>
      fst (get_audio_stream_count e p) = int (length xs)"
    by (simp add: get_audio_stream_count_def count_streams_def)
  from a b c d f g h i show ?thesis by blast
qed


theorem stream_count_or_sentinel_witness:
  "subprocess_run noprobe_env (ffprobe_command ''movie.mp4'') = Inl (FileNotFoundError ''ffprobe'') \<and>
   get_audio_stream_count noprobe_env ''movie.mp4'' =
     (- 1, [Run (ffprobe_command ''movie.mp4''), Print MsgFfprobeNotFound]) \<and>
   subprocess_run badexit_env (ffprobe_command ''movie.mp4'') =
     Inl (CalledProcessError 1 (Some ''movie.mp4: Invalid data found when processing input'')) \<and>
   fst (get_audio_stream_count badexit_env ''movie.mp4'') = - 1 \<and>
   subprocess_run garbled_env (ffprobe_command ''movie.mp4'') = Inr [] \<and>
   json_loads garbled_env [] = Inl (JSONDecodeError ''Expecting value: line 1 column 1 (char 0)'') \<and>
   get_audio_stream_count garbled_env ''movie.mp4'' =
     (- 1, [Run (ffprobe_command ''movie.mp4''), Print MsgJsonParseFailed]) \<and>
   count_streams listy_env ''movie.mp4'' = Inl (AttributeError ''get'') \<and>
   get_audio_stream_count listy_env ''movie.mp4'' =
     (- 1, [Run (ffprobe_command ''movie.mp4''), Print (MsgProbeUnexpected (AttributeError ''get''))]) \<and>
   count_streams movie_env ''movie.mp4'' = Inr 3 \<and>
   get_audio_stream_count movie_env ''movie.mp4'' = (3, [Run (ffprobe_command ''movie.mp4'')])"
proof -
  have h1: "subprocess_run noprobe_env (ffprobe_command ''movie.mp4'') = Inl (FileNotFoundError ''ffprobe'')"
    by (simp add: noprobe_env_def world_def ffprobe_command_def)
  have h2: "subprocess_run badexit_env (ffprobe_command ''movie.mp4'') =
     Inl (CalledProcessError 1 (Some ''movie.mp4: Invalid data found when processing input''))"
    by (simp add: badexit_env_def world_def ffprobe_command_def)
  have h3: "subprocess_run garbled_env (ffprobe_command ''movie.mp4'') = Inr []"
    by (simp add: garbled_env_def world_def)
  have h3': "json_loads garbled_env [] = Inl (JSONDecodeError ''Expecting value: line 1 column 1 (char 0)'')"
    by (simp add: garbled_env_def world_def)
  have h4: "count_streams listy_env ''movie.mp4'' = Inl (AttributeError ''get'')"
    by (simp add: count_streams_def listy_env_def world_def)
  have h5: "count_streams movie_env ''movie.mp4'' = Inr 3"
    by (simp add: count_streams_def movie_env_def world_def streams_json_def)
  note t1 = stream_count_or_sentinel [of noprobe_env "''movie.mp4''"]
  note t2 = stream_count_or_sentinel [of badexit_env "''movie.mp4''"]
  note t3 = stream_count_or_sentinel [of garbled_env "''movie.mp4''"]
  note t4 = stream_count_or_sentinel [of listy_env "''movie.mp4''"]
  note t5 = stream_count_or_sentinel [of movie_env "''movie.mp4''"]
  from t1 h1 have g1: "get_audio_stream_count noprobe_env ''movie.mp4'' =
     (- 1, [Run (ffprobe_command ''movie.mp4''), Print MsgFfprobeNotFound])" by blast
  from t2 h2 have g2: "fst (get_audio_stream_count badexit_env ''movie.mp4'') = - 1" by blast
  from t3 h3 h3' have g3: "get_audio_stream_count garbled_env ''movie.mp4'' =
     (- 1, [Run (ffprobe_command ''movie.mp4''), Print MsgJsonParseFailed])" by blast
  from t4 h4 have g4: "get_audio_stream_count listy_env ''movie.mp4'' =
     (- 1, [Run (ffprobe_command ''movie.mp4''), Print (MsgProbeUnexpected (AttributeError ''get''))])"
    by blast
  from t5 h5 have g5: "get_audio_stream_count movie_env ''movie.mp4'' =
     (3, [Run (ffprobe_command ''movie.mp4'')])" by blast
  from h1 h2 h3 h3' h4 h5 g1 g2 g3 g4 g5 show ?thesis by blast
qed

section \<open>The extraction attempts of a run\<close>

lemma upto_missing_all: "\<forall>i \<in> set is. \<not> P i \<Longrightarrow> upto_missing P is = is"
  by (induction "is") simp_all

lemma upto_missing_subset: "set (upto_missing P is) \<subseteq> set is"
  by (induction "is") auto

lemma upto_missing_mem:
  "distinct is \<Longrightarrow> k < length is \<Longrightarrow>
   (is ! k \<in> set (upto_missing P is)) = (\<forall>j<k. \<not> P (is ! j))"
proof (induction "is" arbitrary: k)
  case Nil
  then show ?case by simp
next
  case (Cons i rest)
  show ?case
  proof (cases k)
    case 0
    then show ?thesis by simp
  next
    case (Suc k')
    with Cons.prems have k': "k' < length rest" and d: "distinct rest" and ni: "rest ! k' \<noteq> i"
      by auto
    have split: "(\<forall>j<Suc k'. \<not> P ((i # rest) ! j)) = (\<not> P i \<and> (\<forall>j<k'. \<not> P (rest ! j)))"
      by (auto simp: less_Suc_eq_0_disj)
    show ?thesis
    proof (cases "P i")
      case True
      with Suc ni split show ?thesis by simp
    next
      case False
      with Suc ni split Cons.IH [OF d k'] show ?thesis by simp
    qed
  qed
qed

lemma upto_missing_range:
  "(i \<in> set (upto_missing P [0..<n])) = (i < n \<and> (\<forall>j<i. \<not> P j))"
proof (cases "i < n")
  case True
  with upto_missing_mem [of "[0..<n]" i P] show ?thesis by simp
next
  case False
  with upto_missing_subset [of P "[0..<n]"] show ?thesis by auto
qed

lemma resolve_output_dir_dir:
  "fst (resolve_output_dir e mp4 odir) = Inr d \<Longrightarrow> d = output_dir_of e mp4 odir"
  by (auto simp: resolve_output_dir_def output_dir_of_def split: option.splits if_splits)

lemma resolve_output_dir_ready:
  "(fst (resolve_output_dir e mp4 odir) = Inr (output_dir_of e mp4 odir)) = dir_available e odir"
  by (auto simp: resolve_output_dir_def output_dir_of_def dir_available_def
      split: option.splits if_splits)

lemma resolve_output_dir_cases:
  "fst (resolve_output_dir e mp4 odir) =
     (if dir_available e odir then Inr (output_dir_of e mp4 odir)
      else Inl (case makedirs e (the odir) of None \<Rightarrow> Returned
                | Some x \<Rightarrow> if is_OSError x then Returned else Raised x))"
  by (auto simp: resolve_output_dir_def output_dir_of_def dir_available_def
      split: option.splits if_splits)

lemma resolve_output_dir_runs: "runs (snd (resolve_output_dir e mp4 odir)) = []"
  by (simp add: resolve_output_dir_def split: option.splits)

lemma resolve_output_dir_attempts: "attempts (snd (resolve_output_dir e mp4 odir)) = []"
  by (simp add: attempts_def resolve_output_dir_runs)

lemma resolve_output_dir_created:
  "created (snd (resolve_output_dir e mp4 odir)) =
     (case odir of None \<Rightarrow> [] | Some d \<Rightarrow> if path_exists e d then [] else [d])"
  by (simp add: resolve_output_dir_def split: option.splits)

lemma attempts_track_loop:
  "attempts (snd (track_loop e mp4 base d is s)) =
     map (track_command mp4 base d) (upto_missing (\<lambda>i. missing e (track_command mp4 base d i)) is)"
  by (simp add: attempts_def track_loop_runs filter_map o_def ffmpeg_command_def)

lemma attempts_summary: "attempts (summary e d s n) = []"
  by (simp add: summary_def attempts_simps)

lemma created_summary: "created (summary e d s n) = []"
  by (simp add: summary_def)

lemma extract_reached:
  assumes "isfile e mp4" and "0 < fst (get_audio_stream_count e mp4)"
  shows "extract_audio_tracks e mp4 odir =
     (case fst (resolve_output_dir e mp4 odir) of
        Inl ending \<Rightarrow>
          (ending,
           Print (MsgProcessing mp4) # snd (get_audio_stream_count e mp4) @
           [Print (MsgFoundTracks mp4 (fst (get_audio_stream_count e mp4)))] @
           snd (resolve_output_dir e mp4 odir))
      | Inr d \<Rightarrow>
          (Returned,
           Print (MsgProcessing mp4) # snd (get_audio_stream_count e mp4) @
           [Print (MsgFoundTracks mp4 (fst (get_audio_stream_count e mp4)))] @
           snd (resolve_output_dir e mp4 odir) @
           snd (track_loop e mp4 (base_of mp4) d
                  (py_range (fst (get_audio_stream_count e mp4))) 0) @
           (case fst (track_loop e mp4 (base_of mp4) d
                        (py_range (fst (get_audio_stream_count e mp4))) 0) of
              None \<Rightarrow> []
            | Some s \<Rightarrow> summary e d s (fst (get_audio_stream_count e mp4)))))"
  using assms
  by (simp add: extract_audio_tracks_def case_prod_beta Let_def split: sum.splits option.splits)

lemma extract_unreached:
  "\<not> (isfile e mp4 \<and> 0 < fst (get_audio_stream_count e mp4)) \<Longrightarrow>
   attempts (snd (extract_audio_tracks e mp4 odir)) = [] \<and>
   created (snd (extract_audio_tracks e mp4 odir)) = [] \<and>
   fst (extract_audio_tracks e mp4 odir) = Returned"
  by (auto simp: extract_audio_tracks_def case_prod_beta attempts_append created_append
      get_audio_stream_count_attempts get_audio_stream_count_created attempts_simps)

lemma attempts_extract:
  "attempts (snd (extract_audio_tracks e mp4 odir)) =
     (if isfile e mp4 \<and> 0 < fst (get_audio_stream_count e mp4) \<and> dir_available e odir
      then map (track_command mp4 (base_of mp4) (output_dir_of e mp4 odir))
             (upto_missing
                (\<lambda>i. missing e (track_command mp4 (base_of mp4) (output_dir_of e mp4 odir) i))
                (py_range (fst (get_audio_stream_count e mp4))))
      else [])"
proof (cases "isfile e mp4 \<and> 0 < fst (get_audio_stream_count e mp4)")
  case False
  with extract_unreached [OF False] show ?thesis by auto
next
  case True
  then have f: "isfile e mp4" and n: "0 < fst (get_audio_stream_count e mp4)" by simp_all
  show ?thesis
    by (simp add: extract_reached [OF f n] resolve_output_dir_cases f n attempts_append
        attempts_simps get_audio_stream_count_attempts resolve_output_dir_attempts
        attempts_track_loop attempts_summary split: option.splits)
qed

lemma attempted_iff:
  "(track_command mp4 (base_of mp4) (output_dir_of e mp4 odir) i
      \<in> set (attempts (snd (extract_audio_tracks e mp4 odir)))) =
   (isfile e mp4 \<and> 0 < fst (get_audio_stream_count e mp4) \<and> dir_available e odir \<and>
    i < nat (fst (get_audio_stream_count e mp4)) \<and>
    (\<forall>j<i. \<not> missing e (track_command mp4 (base_of mp4) (output_dir_of e mp4 odir) j)))"
proof -
  have inj: "\<And>L. (track_command mp4 (base_of mp4) (output_dir_of e mp4 odir) i
      \<in> track_command mp4 (base_of mp4) (output_dir_of e mp4 odir) ` L) = (i \<in> L)"
    by (auto dest: ffmpeg_command_inj)
  show ?thesis
    by (simp add: attempts_extract inj upto_missing_range py_range_def)
qed

section \<open>The example runs, evaluated\<close>

lemma movie_count:
  "get_audio_stream_count movie_env ''movie.mp4'' = (3, [Run (ffprobe_command ''movie.mp4'')])"
  by (simp add: get_audio_stream_count_def count_streams_def movie_env_def world_def
      streams_json_def)

lemma movie_base: "base_of ''movie.mp4'' = ''movie''"
  by code_simp

lemma movie_dir: "output_dir_of movie_env ''movie.mp4'' None = ''/home/user''"
  by code_simp

lemma str_of_nat_small:
  "str_of_nat 0 = ''0''" "str_of_nat 1 = ''1''" "str_of_nat (Suc 0) = ''1''" "str_of_nat 2 = ''2''"
  by code_simp+

lemma range_small: "[0..<1] = [0::nat]" "[0..<2] = [0::nat, 1]" "[0..<3] = [0::nat, 1, 2]"
  by code_simp+

lemma flaky_count:
  "get_audio_stream_count flaky_env ''movie.mp4'' = (2, [Run (ffprobe_command ''movie.mp4'')])"
  by (simp add: get_audio_stream_count_def count_streams_def flaky_env_def world_def
      streams_json_def ffprobe_command_def)

lemma flaky_dir: "output_dir_of flaky_env ''movie.mp4'' None = ''/home/user''"
  by code_simp

lemma nobin_count:
  "get_audio_stream_count nobin_env ''movie.mp4'' = (2, [Run (ffprobe_command ''movie.mp4'')])"
  by (simp add: get_audio_stream_count_def count_streams_def nobin_env_def world_def
      streams_json_def ffprobe_command_def)

lemma nobin_dir: "output_dir_of nobin_env ''movie.mp4'' None = ''/home/user''"
  by code_simp

section \<open>One attempt per track\<close>

text \<open>
  C1, as stated, fails: with an existing input, a count \<open>N = 2\<close> and \<^verbatim>\<open>ffmpeg\<close>
  installed, a run whose output directory cannot be created makes no attempt at all
  (lines 77 to 79 return before the loop).
\<close>

theorem every_track_attempted_counterexample:
  "isfile denied_env ''movie.mp4'' \<and>
   fst (get_audio_stream_count denied_env ''movie.mp4'') = 2 \<and>
   \<not> missing denied_env (track_command ''movie.mp4'' ''movie'' ''/srv/out'' 0) \<and>
   \<not> missing denied_env (track_command ''movie.mp4'' ''movie'' ''/srv/out'' 1) \<and>
   attempts (snd (extract_audio_tracks denied_env ''movie.mp4'' (Some ''/srv/out''))) = []"
  by (simp add: extract_audio_tracks_def get_audio_stream_count_def count_streams_def
      resolve_output_dir_def denied_env_def world_def streams_json_def missing_def
      attempts_simps ffprobe_command_def)

text \<open>
  C1, amended. For a run on an existing input file for which the inspector returns
  \<open>N > 0\<close>, whose output directory is available (none supplied, or the supplied one
  exists or is created) and for which \<^verbatim>\<open>ffmpeg\<close> is found at every index: exactly
  \<open>N\<close> extraction attempts are made, for the indices \<open>0, \<dots>, N - 1\<close> in ascending
  order, the attempt at \<open>i\<close> writing to the resolved output directory joined with
  \<^verbatim>\<open><base>_track_<i>.wav\<close>; the \<open>N\<close> file names, and the \<open>N\<close> paths, are pairwise
  distinct.
\<close>

theorem every_track_attempted:
  assumes "isfile e mp4"
    and "fst (get_audio_stream_count e mp4) = N" and "0 < N"
    and "dir_available e odir"
    and "\<forall>i<nat N. \<not> missing e (track_command mp4 (base_of mp4) (output_dir_of e mp4 odir) i)"
  shows "attempts (snd (extract_audio_tracks e mp4 odir)) =
           map (track_command mp4 (base_of mp4) (output_dir_of e mp4 odir)) [0..<nat N] \<and>
         length (attempts (snd (extract_audio_tracks e mp4 odir))) = nat N \<and>
         distinct (map (output_filename (base_of mp4)) [0..<nat N]) \<and>
         distinct (map (\<lambda>i. os_path_join (output_dir_of e mp4 odir)
                                (output_filename (base_of mp4) i)) [0..<nat N])"
proof -
  from assms(5) have "upto_missing
      (\<lambda>i. missing e (track_command mp4 (base_of mp4) (output_dir_of e mp4 odir) i))
      (py_range N) = py_range N"
    by (intro upto_missing_all) (simp add: py_range_def)
  with assms(1-4) have a: "attempts (snd (extract_audio_tracks e mp4 odir)) =
      map (track_command mp4 (base_of mp4) (output_dir_of e mp4 odir)) [0..<nat N]"
    by (simp add: attempts_extract py_range_def)
  have n: "distinct (map (output_filename (base_of mp4)) [0..<nat N])"
    by (simp add: distinct_map inj_on_def) (blast dest: output_filename_inj)
  have p: "distinct (map (\<lambda>i. os_path_join (output_dir_of e mp4 odir)
      (output_filename (base_of mp4) i)) [0..<nat N])"
    by (simp add: distinct_map inj_on_def) (blast dest: os_path_join_filename_inj)
  from a n p show ?thesis by simp
qed

theorem every_track_attempted_witness:
  "isfile movie_env ''movie.mp4'' \<and>
   fst (get_audio_stream_count movie_env ''movie.mp4'') = 3 \<and>
   dir_available movie_env None \<and>
   attempts (snd (extract_audio_tracks movie_env ''movie.mp4'' None)) =
     [[''ffmpeg'', ''-y'', ''-i'', ''movie.mp4'', ''-map'', ''0:a:0'', ''-c:a'', ''pcm_s16le'',
       ''/home/user/movie_track_0.wav''],
      [''ffmpeg'', ''-y'', ''-i'', ''movie.mp4'', ''-map'', ''0:a:1'', ''-c:a'', ''pcm_s16le'',
       ''/home/user/movie_track_1.wav''],
      [''ffmpeg'', ''-y'', ''-i'', ''movie.mp4'', ''-map'', ''0:a:2'', ''-c:a'', ''pcm_s16le'',
       ''/home/user/movie_track_2.wav'']]"
proof -
  have f: "isfile movie_env ''movie.mp4''" by (simp add: movie_env_def world_def)
  have n: "fst (get_audio_stream_count movie_env ''movie.mp4'') = 3" by (simp add: movie_count)
  have d: "dir_available movie_env None" by (simp add: dir_available_def)
  have m: "\<forall>i<nat 3. \<not> missing movie_env
      (track_command ''movie.mp4'' (base_of ''movie.mp4'')
         (output_dir_of movie_env ''movie.mp4'' None) i)"
    by (simp add: missing_def movie_env_def world_def)
  from f n d every_track_attempted [OF f n _ d m] show ?thesis
    by (simp add: movie_base movie_dir range_small str_of_nat_small ffmpeg_command_def
        output_filename_def os_path_join_def)
qed

section \<open>Failures inside the loop\<close>

text \<open>
  C2. In a run with \<open>N\<close> streams, if the attempt at index \<open>i\<close> (\<open>i + 1 < N\<close>) is made
  and fails with any exception other than \<^verbatim>\<open>FileNotFoundError\<close> (a non-zero exit
  status or anything else), the attempt at \<open>i + 1\<close> is made as well, and the iteration
  at \<open>i\<close> leaves the success counter as it found it.
\<close>

theorem failed_track_does_not_stop_the_batch:
  assumes "track_command mp4 (base_of mp4) (output_dir_of e mp4 odir) i
             \<in> set (attempts (snd (extract_audio_tracks e mp4 odir)))"
    and "subprocess_run e (track_command mp4 (base_of mp4) (output_dir_of e mp4 odir) i) = Inl x"
    and "\<not> is_FileNotFoundError x"
    and "Suc i < nat (fst (get_audio_stream_count e mp4))"
  shows "track_command mp4 (base_of mp4) (output_dir_of e mp4 odir) (Suc i)
           \<in> set (attempts (snd (extract_audio_tracks e mp4 odir))) \<and>
         fst (extract_track e mp4 (base_of mp4) (output_dir_of e mp4 odir) i successful) =
           Continue successful"
proof -
  from assms(2,3) have nm: "\<not> missing e (track_command mp4 (base_of mp4) (output_dir_of e mp4 odir) i)"
    and ns: "\<not> succeeds e (track_command mp4 (base_of mp4) (output_dir_of e mp4 odir) i)"
    by (simp_all add: missing_def succeeds_def)
  from assms(1) nm assms(4)
  have "track_command mp4 (base_of mp4) (output_dir_of e mp4 odir) (Suc i)
           \<in> set (attempts (snd (extract_audio_tracks e mp4 odir)))"
    unfolding attempted_iff by (auto simp: less_Suc_eq)
  moreover from nm ns
  have "fst (extract_track e mp4 (base_of mp4) (output_dir_of e mp4 odir) i successful) =
           Continue successful"
    by (simp add: extract_track_step)
  ultimately show ?thesis by simp
qed

theorem failed_track_does_not_stop_the_batch_witness:
  "track_command ''movie.mp4'' ''movie'' ''/home/user'' 0
     \<in> set (attempts (snd (extract_audio_tracks flaky_env ''movie.mp4'' None))) \<and>
   subprocess_run flaky_env (track_command ''movie.mp4'' ''movie'' ''/home/user'' 0) =
     Inl (CalledProcessError 1 (Some ''Conversion failed!'')) \<and>
   \<not> is_FileNotFoundError (CalledProcessError 1 (Some ''Conversion failed!'')) \<and>
   Suc 0 < nat (fst (get_audio_stream_count flaky_env ''movie.mp4'')) \<and>
   track_command ''movie.mp4'' ''movie'' ''/home/user'' (Suc 0)
     \<in> set (attempts (snd (extract_audio_tracks flaky_env ''movie.mp4'' None))) \<and>
   fst (extract_track flaky_env ''movie.mp4'' ''movie'' ''/home/user'' 0 0) = Continue 0"
proof -
  have a: "track_command ''movie.mp4'' (base_of ''movie.mp4'')
        (output_dir_of flaky_env ''movie.mp4'' None) 0
     \<in> set (attempts (snd (extract_audio_tracks flaky_env ''movie.mp4'' None)))"
    unfolding attempted_iff
    by (simp add: flaky_count dir_available_def) (simp add: flaky_env_def world_def)
  have r: "subprocess_run flaky_env (track_command ''movie.mp4'' (base_of ''movie.mp4'')
        (output_dir_of flaky_env ''movie.mp4'' None) 0) =
     Inl (CalledProcessError 1 (Some ''Conversion failed!''))"
    by (simp add: flaky_env_def world_def ffmpeg_command_def str_of_nat_small)
  have c: "\<not> is_FileNotFoundError (CalledProcessError 1 (Some ''Conversion failed!''))"
    by simp
  have n: "Suc 0 < nat (fst (get_audio_stream_count flaky_env ''movie.mp4''))"
    by (simp add: flaky_count)
  from a r c n failed_track_does_not_stop_the_batch [OF a r c n, of 0]
  show ?thesis by (simp add: movie_base flaky_dir)
qed

text \<open>
  C3. If the attempt at index \<open>i\<close> is made and fails because the \<^verbatim>\<open>ffmpeg\<close> binary is
  not found, no attempt is made at any index above \<open>i\<close>: the run prints that
  \<^verbatim>\<open>ffmpeg\<close> is missing and returns; the failed call and that message are the last two
  events of the run.
\<close>

theorem missing_ffmpeg_halts_the_loop:
  assumes "track_command mp4 (base_of mp4) (output_dir_of e mp4 odir) i
             \<in> set (attempts (snd (extract_audio_tracks e mp4 odir)))"
    and "subprocess_run e (track_command mp4 (base_of mp4) (output_dir_of e mp4 odir) i) =
           Inl (FileNotFoundError m)"
  shows "(\<forall>j>i. track_command mp4 (base_of mp4) (output_dir_of e mp4 odir) j
            \<notin> set (attempts (snd (extract_audio_tracks e mp4 odir)))) \<and>
         fst (extract_audio_tracks e mp4 odir) = Returned \<and>
         (\<exists>pre. snd (extract_audio_tracks e mp4 odir) =
            pre @ [Run (track_command mp4 (base_of mp4) (output_dir_of e mp4 odir) i),
                   Print MsgFfmpegNotFound])"
proof -
  let ?d = "output_dir_of e mp4 odir"
  let ?N = "fst (get_audio_stream_count e mp4)"
  from assms(2) have mi: "missing e (track_command mp4 (base_of mp4) ?d i)"
    by (simp add: missing_def)
  from assms(1) have f: "isfile e mp4" and n: "0 < ?N" and a: "dir_available e odir"
    and i: "i < nat ?N"
    and before: "\<forall>j<i. \<not> missing e (track_command mp4 (base_of mp4) ?d j)"
    unfolding attempted_iff by simp_all
  from mi have later: "\<forall>j>i. track_command mp4 (base_of mp4) ?d j
            \<notin> set (attempts (snd (extract_audio_tracks e mp4 odir)))"
    unfolding attempted_iff by blast
  from a have r: "fst (resolve_output_dir e mp4 odir) = Inr ?d"
    by (simp add: resolve_output_dir_ready)
  from i mi have "\<exists>k \<in> set (py_range ?N). missing e (track_command mp4 (base_of mp4) ?d k)"
    by (auto simp: py_range_def)
  then have halt: "fst (track_loop e mp4 (base_of mp4) ?d (py_range ?N) 0) = None"
    by (simp add: track_loop_result)
  from track_loop_halted [OF halt] obtain pre k
    where k: "missing e (track_command mp4 (base_of mp4) ?d k)"
      and tr: "snd (track_loop e mp4 (base_of mp4) ?d (py_range ?N) 0) =
        pre @ [Run (track_command mp4 (base_of mp4) ?d k), Print MsgFfmpegNotFound]"
    by blast
  from f n r halt tr have whole: "extract_audio_tracks e mp4 odir =
      (Returned,
       (Print (MsgProcessing mp4) # snd (get_audio_stream_count e mp4) @
        [Print (MsgFoundTracks mp4 ?N)] @ snd (resolve_output_dir e mp4 odir) @ pre) @
       [Run (track_command mp4 (base_of mp4) ?d k), Print MsgFfmpegNotFound])"
    by (simp add: extract_reached)
  then have "track_command mp4 (base_of mp4) ?d k
      \<in> set (attempts (snd (extract_audio_tracks e mp4 odir)))"
    by (simp add: attempts_append attempts_simps ffmpeg_command_def)
  then have kb: "\<forall>j<k. \<not> missing e (track_command mp4 (base_of mp4) ?d j)"
    unfolding attempted_iff by simp
  from kb mi have "\<not> i < k" by blast
  moreover from before k have "\<not> k < i" by blast
  ultimately have "k = i" by simp
  with whole later show ?thesis by auto
qed

theorem missing_ffmpeg_halts_the_loop_witness:
  "track_command ''movie.mp4'' ''movie'' ''/home/user'' 0
     \<in> set (attempts (snd (extract_audio_tracks nobin_env ''movie.mp4'' None))) \<and>
   subprocess_run nobin_env (track_command ''movie.mp4'' ''movie'' ''/home/user'' 0) =
     Inl (FileNotFoundError ''ffmpeg'') \<and>
   track_command ''movie.mp4'' ''movie'' ''/home/user'' 1
     \<notin> set (attempts (snd (extract_audio_tracks nobin_env ''movie.mp4'' None))) \<and>
   fst (extract_audio_tracks nobin_env ''movie.mp4'' None) = Returned"
proof -
  have a: "track_command ''movie.mp4'' (base_of ''movie.mp4'')
        (output_dir_of nobin_env ''movie.mp4'' None) 0
     \<in> set (attempts (snd (extract_audio_tracks nobin_env ''movie.mp4'' None)))"
    unfolding attempted_iff
    by (simp add: nobin_count dir_available_def) (simp add: nobin_env_def world_def)
  have r: "subprocess_run nobin_env (track_command ''movie.mp4'' (base_of ''movie.mp4'')
        (output_dir_of nobin_env ''movie.mp4'' None) 0) = Inl (FileNotFoundError ''ffmpeg'')"
    by (simp add: nobin_env_def world_def ffmpeg_command_def)
  from missing_ffmpeg_halts_the_loop [OF a r]
  have "track_command ''movie.mp4'' (base_of ''movie.mp4'')
        (output_dir_of nobin_env ''movie.mp4'' None) 1
     \<notin> set (attempts (snd (extract_audio_tracks nobin_env ''movie.mp4'' None)))"
    and "fst (extract_audio_tracks nobin_env ''movie.mp4'' None) = Returned"
    by simp_all
  with a r show ?thesis by (simp add: movie_base nobin_dir)
qed

section \<open>The output directory\<close>

lemma probe_handler_summary: "filter is_summary (printed (probe_handler x)) = []"
  by (cases x) (simp_all split: option.splits)

lemma get_audio_stream_count_summary:
  "filter is_summary (printed (snd (get_audio_stream_count e p))) = []"
  by (simp add: get_audio_stream_count_def probe_handler_summary split: sum.splits)

lemma resolve_output_dir_summary:
  "filter is_summary (printed (snd (resolve_output_dir e mp4 odir))) = []"
  by (simp add: resolve_output_dir_def split: option.splits)

lemma resolve_output_dir_events:
  "odir = Some d \<Longrightarrow> \<not> path_exists e d \<Longrightarrow>
   \<exists>post. snd (resolve_output_dir e mp4 odir) = MakeDirs d # post"
  by (simp add: resolve_output_dir_def split: option.splits)

lemma resolve_output_dir_failed:
  "odir = Some d \<Longrightarrow> \<not> path_exists e d \<Longrightarrow> makedirs e d = Some x \<Longrightarrow> is_OSError x \<Longrightarrow>
   resolve_output_dir e mp4 odir = (Inl Returned, [MakeDirs d, Print (MsgDirCreateFailed d x)])"
  by (simp add: resolve_output_dir_def)

lemma created_extract:
  assumes "isfile e mp4" and "0 < fst (get_audio_stream_count e mp4)"
  shows "created (snd (extract_audio_tracks e mp4 odir)) =
     (case odir of None \<Rightarrow> [] | Some d \<Rightarrow> if path_exists e d then [] else [d])"
  by (simp add: extract_reached [OF assms] created_append get_audio_stream_count_created
      resolve_output_dir_created track_loop_created created_summary
      split: sum.splits option.splits)

lemma denied_count:
  "get_audio_stream_count denied_env ''movie.mp4'' = (2, [Run (ffprobe_command ''movie.mp4'')])"
  by (simp add: get_audio_stream_count_def count_streams_def denied_env_def world_def
      streams_json_def)

lemma detour_count:
  "get_audio_stream_count detour_env ''L/../d/f.mp4'' =
     (1, [Run (ffprobe_command ''L/../d/f.mp4'')])"
  by (simp add: get_audio_stream_count_def count_streams_def detour_env_def world_def
      streams_json_def)

lemma detour_dir: "output_dir_of detour_env ''L/../d/f.mp4'' None = ''/w/d''"
  by code_simp

lemma detour_base: "base_of ''L/../d/f.mp4'' = ''f''"
  by code_simp

text \<open>
  C4, as stated, fails where no directory is supplied: lines 69 and 70 take the directory
  of the input's absolute path and neither test nor create it. In the run below that
  directory does not exist, \<^verbatim>\<open>os.makedirs\<close> is never called, and the attempt for
  track 0 is made all the same.
\<close>

theorem output_directory_resolution_counterexample:
  "isfile detour_env ''L/../d/f.mp4'' \<and>
   fst (get_audio_stream_count detour_env ''L/../d/f.mp4'') = 1 \<and>
   output_dir_of detour_env ''L/../d/f.mp4'' None = ''/w/d'' \<and>
   \<not> path_exists detour_env ''/w/d'' \<and>
   created (snd (extract_audio_tracks detour_env ''L/../d/f.mp4'' None)) = [] \<and>
   attempts (snd (extract_audio_tracks detour_env ''L/../d/f.mp4'' None)) =
     [[''ffmpeg'', ''-y'', ''-i'', ''L/../d/f.mp4'', ''-map'', ''0:a:0'', ''-c:a'', ''pcm_s16le'',
       ''/w/d/f_track_0.wav'']]"
proof -
  have f: "isfile detour_env ''L/../d/f.mp4''" by (simp add: detour_env_def world_def)
  have n: "0 < fst (get_audio_stream_count detour_env ''L/../d/f.mp4'')"
    by (simp add: detour_count)
  have e: "\<not> path_exists detour_env ''/w/d''" by (simp add: detour_env_def world_def)
  have c: "created (snd (extract_audio_tracks detour_env ''L/../d/f.mp4'' None)) = []"
    by (simp add: created_extract [OF f n])
  have m: "\<not> missing detour_env c" for c
    by (simp add: missing_def detour_env_def world_def)
  have a: "attempts (snd (extract_audio_tracks detour_env ''L/../d/f.mp4'' None)) =
     [[''ffmpeg'', ''-y'', ''-i'', ''L/../d/f.mp4'', ''-map'', ''0:a:0'', ''-c:a'', ''pcm_s16le'',
       ''/w/d/f_track_0.wav'']]"
    by (simp add: attempts_extract f detour_count dir_available_def py_range_def m
        detour_dir detour_base ffmpeg_command_def output_filename_def os_path_join_def
        str_of_nat_small)
  from f e c a show ?thesis by (simp add: detour_count detour_dir)
qed

text \<open>
  C4, amended. In a run that reaches the resolution step (the input exists, the count is
  positive), the output directory is the caller's when one is given, else the directory
  of the input's absolute path, and every attempt writes there (the attempt at index 0 is
  made whenever the directory is available). \<^verbatim>\<open>os.makedirs\<close> is called exactly when
  a directory is given and does not exist, and then before any extraction attempt; when
  that call fails with an \<^verbatim>\<open>OSError\<close> the run reports the failure as its last event,
  returns, and makes no extraction attempt. A directory that was not supplied is neither
  tested nor created.
\<close>

theorem output_directory_resolution:
  assumes "isfile e mp4" and "0 < fst (get_audio_stream_count e mp4)"
  shows "output_dir_of e mp4 odir =
           (case odir of None \<Rightarrow> os_path_dirname (os_path_abspath e mp4) | Some d \<Rightarrow> d) \<and>
         set (attempts (snd (extract_audio_tracks e mp4 odir))) \<subseteq>
           track_command mp4 (base_of mp4) (output_dir_of e mp4 odir) `
             {..<nat (fst (get_audio_stream_count e mp4))} \<and>
         (dir_available e odir \<longrightarrow>
            track_command mp4 (base_of mp4) (output_dir_of e mp4 odir) 0
              \<in> set (attempts (snd (extract_audio_tracks e mp4 odir)))) \<and>
         created (snd (extract_audio_tracks e mp4 odir)) =
           (case odir of None \<Rightarrow> [] | Some d \<Rightarrow> if path_exists e d then [] else [d]) \<and>
         (\<forall>d. odir = Some d \<and> \<not> path_exists e d \<longrightarrow>
            (\<exists>pre post. snd (extract_audio_tracks e mp4 odir) = pre @ MakeDirs d # post \<and>
               attempts pre = [])) \<and>
         (\<forall>d x. odir = Some d \<and> \<not> path_exists e d \<and> makedirs e d = Some x \<and> is_OSError x \<longrightarrow>
            fst (extract_audio_tracks e mp4 odir) = Returned \<and>
            attempts (snd (extract_audio_tracks e mp4 odir)) = [] \<and>
            (\<exists>pre. snd (extract_audio_tracks e mp4 odir) =
               pre @ [MakeDirs d, Print (MsgDirCreateFailed d x)]))"
proof -
  let ?tr = "snd (extract_audio_tracks e mp4 odir)"
  let ?head = "Print (MsgProcessing mp4) # snd (get_audio_stream_count e mp4) @
     [Print (MsgFoundTracks mp4 (fst (get_audio_stream_count e mp4)))]"
  have a: "output_dir_of e mp4 odir =
      (case odir of None \<Rightarrow> os_path_dirname (os_path_abspath e mp4) | Some d \<Rightarrow> d)"
    by (simp add: output_dir_of_def)
  have b: "set (attempts ?tr) \<subseteq>
      track_command mp4 (base_of mp4) (output_dir_of e mp4 odir) `
        {..<nat (fst (get_audio_stream_count e mp4))}"
    using upto_missing_subset
      [of "\<lambda>i. missing e (track_command mp4 (base_of mp4) (output_dir_of e mp4 odir) i)"
          "py_range (fst (get_audio_stream_count e mp4))"]
    by (auto simp: attempts_extract py_range_def)
  have c: "dir_available e odir \<longrightarrow>
      track_command mp4 (base_of mp4) (output_dir_of e mp4 odir) 0 \<in> set (attempts ?tr)"
    using assms unfolding attempted_iff by simp
  note d = created_extract [OF assms, of odir]
  have hd: "attempts ?head = []"
    by (simp add: attempts_simps attempts_append get_audio_stream_count_attempts)
  have f: "\<forall>d. odir = Some d \<and> \<not> path_exists e d \<longrightarrow>
      (\<exists>pre post. ?tr = pre @ MakeDirs d # post \<and> attempts pre = [])"
  proof (intro allI impI)
    fix d
    assume h: "odir = Some d \<and> \<not> path_exists e d"
    then obtain post where p: "snd (resolve_output_dir e mp4 odir) = MakeDirs d # post"
      using resolve_output_dir_events [of odir d e mp4] by blast
    have "\<exists>rest. ?tr = ?head @ snd (resolve_output_dir e mp4 odir) @ rest"
      by (simp add: extract_reached [OF assms] split: sum.splits)
    then obtain rest where "?tr = ?head @ MakeDirs d # (post @ rest)"
      using p by auto
    with hd show "\<exists>pre post. ?tr = pre @ MakeDirs d # post \<and> attempts pre = []"
      by blast
  qed
  have g: "\<forall>d x. odir = Some d \<and> \<not> path_exists e d \<and> makedirs e d = Some x \<and> is_OSError x \<longrightarrow>
      fst (extract_audio_tracks e mp4 odir) = Returned \<and> attempts ?tr = [] \<and>
      (\<exists>pre. ?tr = pre @ [MakeDirs d, Print (MsgDirCreateFailed d x)])"
  proof (intro allI impI)
    fix d x
    assume h: "odir = Some d \<and> \<not> path_exists e d \<and> makedirs e d = Some x \<and> is_OSError x"
    then have r: "resolve_output_dir e mp4 odir =
        (Inl Returned, [MakeDirs d, Print (MsgDirCreateFailed d x)])"
      by (simp add: resolve_output_dir_failed)
    then have w: "extract_audio_tracks e mp4 odir =
        (Returned, ?head @ [MakeDirs d, Print (MsgDirCreateFailed d x)])"
      by (simp add: extract_reached [OF assms])
    from h have "\<not> dir_available e odir" by (simp add: dir_available_def)
    then have "attempts ?tr = []" by (simp add: attempts_extract)
    with w show "fst (extract_audio_tracks e mp4 odir) = Returned \<and> attempts ?tr = [] \<and>
        (\<exists>pre. ?tr = pre @ [MakeDirs d, Print (MsgDirCreateFailed d x)])"
      by simp
  qed
  from a b c d f g show ?thesis by blast
qed

theorem output_directory_resolution_witness:
  "isfile movie_env ''movie.mp4'' \<and>
   0 < fst (get_audio_stream_count movie_env ''movie.mp4'') \<and>
   \<not> path_exists movie_env ''out'' \<and>
   dir_available movie_env (Some ''out'') \<and>
   output_dir_of movie_env ''movie.mp4'' (Some ''out'') = ''out'' \<and>
   [''ffmpeg'', ''-y'', ''-i'', ''movie.mp4'', ''-map'', ''0:a:0'', ''-c:a'', ''pcm_s16le'',
    ''out/movie_track_0.wav'']
     \<in> set (attempts (snd (extract_audio_tracks movie_env ''movie.mp4'' (Some ''out'')))) \<and>
   created (snd (extract_audio_tracks movie_env ''movie.mp4'' (Some ''out''))) = [''out''] \<and>
   isfile denied_env ''movie.mp4'' \<and>
   0 < fst (get_audio_stream_count denied_env ''movie.mp4'') \<and>
   \<not> path_exists denied_env ''/srv/out'' \<and>
   makedirs denied_env ''/srv/out'' = Some (OSError ''[Errno 13] Permission denied'') \<and>
   fst (extract_audio_tracks denied_env ''movie.mp4'' (Some ''/srv/out'')) = Returned \<and>
   attempts (snd (extract_audio_tracks denied_env ''movie.mp4'' (Some ''/srv/out''))) = [] \<and>
   created (snd (extract_audio_tracks denied_env ''movie.mp4'' (Some ''/srv/out''))) = [''/srv/out'']"
proof -
  have f1: "isfile movie_env ''movie.mp4''" by (simp add: movie_env_def world_def)
  have n1: "0 < fst (get_audio_stream_count movie_env ''movie.mp4'')" by (simp add: movie_count)
  have e1: "\<not> path_exists movie_env ''out''" by (simp add: movie_env_def world_def)
  have a1: "dir_available movie_env (Some ''out'')"
    by (simp add: dir_available_def movie_env_def world_def)
  have f2: "isfile denied_env ''movie.mp4''" by (simp add: denied_env_def world_def)
  have n2: "0 < fst (get_audio_stream_count denied_env ''movie.mp4'')" by (simp add: denied_count)
  have e2: "\<not> path_exists denied_env ''/srv/out''" by (simp add: denied_env_def world_def)
  have m2: "makedirs denied_env ''/srv/out'' = Some (OSError ''[Errno 13] Permission denied'')"
    by (simp add: denied_env_def world_def)
  note t1 = output_directory_resolution [OF f1 n1, of "Some ''out''"]
  note t2 = output_directory_resolution [OF f2 n2, of "Some ''/srv/out''"]
  from t1 have g1: "output_dir_of movie_env ''movie.mp4'' (Some ''out'') = ''out''"
    by simp
  from t1 a1 have g2: "track_command ''movie.mp4'' (base_of ''movie.mp4'')
        (output_dir_of movie_env ''movie.mp4'' (Some ''out'')) 0
      \<in> set (attempts (snd (extract_audio_tracks movie_env ''movie.mp4'' (Some ''out''))))"
    by blast
  from t1 e1 have g3: "created (snd (extract_audio_tracks movie_env ''movie.mp4'' (Some ''out''))) = [''out'']"
    by simp
  from t2 e2 m2 have g4: "fst (extract_audio_tracks denied_env ''movie.mp4'' (Some ''/srv/out'')) = Returned"
    and g5: "attempts (snd (extract_audio_tracks denied_env ''movie.mp4'' (Some ''/srv/out''))) = []"
    and g6: "created (snd (extract_audio_tracks denied_env ''movie.mp4'' (Some ''/srv/out''))) = [''/srv/out'']"
    by simp_all
  from g2 have g2': "[''ffmpeg'', ''-y'', ''-i'', ''movie.mp4'', ''-map'', ''0:a:0'', ''-c:a'', ''pcm_s16le'',
      ''out/movie_track_0.wav'']
     \<in> set (attempts (snd (extract_audio_tracks movie_env ''movie.mp4'' (Some ''out''))))"
    by (simp add: g1 movie_base ffmpeg_command_def output_filename_def os_path_join_def
        str_of_nat_small)
  from f1 n1 e1 a1 g1 g2' g3 f2 n2 e2 m2 g4 g5 g6 show ?thesis by blast
qed

section \<open>How a run ends\<close>

text \<open>
  C9 says that \<^verbatim>\<open>extract_audio_tracks\<close> returns for all arguments and all outcomes
  of the external processes, every error path ending in a report and a return or a
  continue. The probe and the loop keep to it with a final \<^verbatim>\<open>except Exception\<close>
  (lines 39 and 116). The handler around \<^verbatim>\<open>os.makedirs\<close> (line 77) is
  \<^verbatim>\<open>except OSError\<close> only, and the code does not keep to it there: for an existing
  input with one stream and the output directory \<^verbatim>\<open>out\<close> followed by a null
  character, \<^verbatim>\<open>os.path.exists\<close> is false, \<^verbatim>\<open>os.makedirs\<close> raises
  \<^verbatim>\<open>ValueError\<close>, and that exception leaves the function: the run ends with the call
  of \<^verbatim>\<open>os.makedirs\<close>, nothing is reported, and no track is attempted.
\<close>

theorem makedirs_value_error_escapes:
  "isfile nul_env ''movie.mp4'' \<and>
   get_audio_stream_count nul_env ''movie.mp4'' = (1, [Run (ffprobe_command ''movie.mp4'')]) \<and>
   makedirs nul_env [CHR ''o'', CHR ''u'', CHR ''t'', CHR 0x00] =
     Some (ValueError ''embedded null byte'') \<and>
   extract_audio_tracks nul_env ''movie.mp4'' (Some [CHR ''o'', CHR ''u'', CHR ''t'', CHR 0x00]) =
     (Raised (ValueError ''embedded null byte''),
      [Print (MsgProcessing ''movie.mp4''),
       Run (ffprobe_command ''movie.mp4''),
       Print (MsgFoundTracks ''movie.mp4'' 1),
       MakeDirs [CHR ''o'', CHR ''u'', CHR ''t'', CHR 0x00]])"
  by (simp add: extract_audio_tracks_def get_audio_stream_count_def count_streams_def
      resolve_output_dir_def nul_env_def streams_json_def)

section \<open>The summary\<close>

lemma successes_le: "successes e mp4 d N \<le> nat N"
proof -
  have "successes e mp4 d N \<le> length (py_range N)"
    unfolding successes_def by (rule length_filter_le)
  then show ?thesis by (simp add: py_range_def)
qed

lemma summary_cases:
  "0 < N \<Longrightarrow> S \<le> nat N \<Longrightarrow>
   summary e d S N =
     (if S = nat N then [Print (MsgAllDone S), Print (MsgOutputDir (os_path_abspath e d))]
      else if 0 < S then [Print (MsgPartial S), Print (MsgOutputDir (os_path_abspath e d))]
      else [Print MsgAllFailed])"
  by (auto simp: summary_def)

lemma allfail_count:
  "get_audio_stream_count allfail_env ''movie.mp4'' = (2, [Run (ffprobe_command ''movie.mp4'')])"
  by (simp add: get_audio_stream_count_def count_streams_def allfail_env_def world_def
      streams_json_def ffprobe_command_def)

lemma allfail_dir: "output_dir_of allfail_env ''movie.mp4'' None = ''/home/user''"
  by code_simp

lemma example_successes:
  "successes movie_env ''movie.mp4'' ''/home/user'' 3 = 3"
  "successes flaky_env ''movie.mp4'' ''/home/user'' 2 = 1"
  "successes allfail_env ''movie.mp4'' ''/home/user'' 2 = 0"
  by code_simp+

text \<open>
  C6, as stated, fails in its last part: a run whose loop is halted by a missing
  \<^verbatim>\<open>ffmpeg\<close> binary returns at line 107 and never reaches the summary. With two
  streams and no \<^verbatim>\<open>ffmpeg\<close>, the whole run is the trace below; its last line is the
  report of the missing binary.
\<close>

theorem summary_when_loop_completes_counterexample:
  "isfile nobin_env ''movie.mp4'' \<and>
   fst (get_audio_stream_count nobin_env ''movie.mp4'') = 2 \<and>
   extract_audio_tracks nobin_env ''movie.mp4'' None =
     (Returned,
      [Print (MsgProcessing ''movie.mp4''),
       Run (ffprobe_command ''movie.mp4''),
       Print (MsgFoundTracks ''movie.mp4'' 2),
       Print (MsgExtracting 0 ''/home/user/movie_track_0.wav''),
       Run [''ffmpeg'', ''-y'', ''-i'', ''movie.mp4'', ''-map'', ''0:a:0'', ''-c:a'', ''pcm_s16le'',
            ''/home/user/movie_track_0.wav''],
       Print MsgFfmpegNotFound])"
  by code_simp

text \<open>
  C6, amended. In a run on an existing input with \<open>N > 0\<close> streams: when the output
  directory is available and \<^verbatim>\<open>ffmpeg\<close> is found at every index, the trace ends with
  the summary, chosen by the success counter \<open>S\<close> (the number of indices whose call
  exited with status 0): all succeeded when \<open>S = N\<close>, partial when \<open>0 < S < N\<close>, all
  failed when \<open>S = 0\<close>, and it is the only summary line of the run. When the directory
  cannot be made available or \<^verbatim>\<open>ffmpeg\<close> is missing at some index, the run prints no
  summary line at all.
\<close>

theorem summary_when_loop_completes:
  assumes "isfile e mp4" and "fst (get_audio_stream_count e mp4) = N" and "0 < N"
  shows
    "(dir_available e odir \<and>
      (\<forall>i<nat N. \<not> missing e (track_command mp4 (base_of mp4) (output_dir_of e mp4 odir) i)) \<longrightarrow>
        (\<exists>pre. snd (extract_audio_tracks e mp4 odir) =
           pre @ summary e (output_dir_of e mp4 odir)
                   (successes e mp4 (output_dir_of e mp4 odir) N) N) \<and>
        filter is_summary (printed (snd (extract_audio_tracks e mp4 odir))) =
          [if successes e mp4 (output_dir_of e mp4 odir) N = nat N
           then MsgAllDone (successes e mp4 (output_dir_of e mp4 odir) N)
           else if 0 < successes e mp4 (output_dir_of e mp4 odir) N
           then MsgPartial (successes e mp4 (output_dir_of e mp4 odir) N)
           else MsgAllFailed]) \<and>
     (\<not> dir_available e odir \<or>
      (\<exists>i<nat N. missing e (track_command mp4 (base_of mp4) (output_dir_of e mp4 odir) i)) \<longrightarrow>
        filter is_summary (printed (snd (extract_audio_tracks e mp4 odir))) = [])"
proof -
  let ?d = "output_dir_of e mp4 odir"
  let ?S = "successes e mp4 ?d N"
  let ?tr = "snd (extract_audio_tracks e mp4 odir)"
  let ?head = "Print (MsgProcessing mp4) # snd (get_audio_stream_count e mp4) @
     [Print (MsgFoundTracks mp4 N)]"
  from assms have n: "0 < fst (get_audio_stream_count e mp4)" by simp
  have hs: "filter is_summary (printed ?head) = []"
    by (simp add: printed_append get_audio_stream_count_summary)
  have completed: "(\<exists>pre. ?tr = pre @ summary e ?d ?S N) \<and>
      filter is_summary (printed ?tr) =
        [if ?S = nat N then MsgAllDone ?S else if 0 < ?S then MsgPartial ?S else MsgAllFailed]"
    if a: "dir_available e odir"
      and m: "\<forall>i<nat N. \<not> missing e (track_command mp4 (base_of mp4) ?d i)"
  proof -
    from a have r: "fst (resolve_output_dir e mp4 odir) = Inr ?d"
      by (simp add: resolve_output_dir_ready)
    from m have l: "fst (track_loop e mp4 (base_of mp4) ?d (py_range N) 0) = Some ?S"
      by (simp add: track_loop_result successes_def py_range_def)
    from r l assms(2) have w: "?tr =
        (?head @ snd (resolve_output_dir e mp4 odir) @
         snd (track_loop e mp4 (base_of mp4) ?d (py_range N) 0)) @ summary e ?d ?S N"
      by (simp add: extract_reached [OF assms(1) n])
    have "filter is_summary (printed ?tr) = filter is_summary (printed (summary e ?d ?S N))"
      by (subst w) (simp add: printed_append get_audio_stream_count_summary
          resolve_output_dir_summary track_loop_summary)
    also have "\<dots> =
        [if ?S = nat N then MsgAllDone ?S else if 0 < ?S then MsgPartial ?S else MsgAllFailed]"
      by (simp add: summary_cases [OF assms(3) successes_le])
    finally show ?thesis using w by blast
  qed
  have halted: "filter is_summary (printed ?tr) = []"
    if h: "\<not> dir_available e odir \<or>
      (\<exists>i<nat N. missing e (track_command mp4 (base_of mp4) ?d i))"
  proof (cases "dir_available e odir")
    case False
    then obtain ending where "fst (resolve_output_dir e mp4 odir) = Inl ending"
      by (simp add: resolve_output_dir_cases)
    then show ?thesis
      using assms(2)
      by (simp add: extract_reached [OF assms(1) n] printed_append
          get_audio_stream_count_summary resolve_output_dir_summary)
  next
    case True
    then have r: "fst (resolve_output_dir e mp4 odir) = Inr ?d"
      by (simp add: resolve_output_dir_ready)
    from True h have "\<exists>i \<in> set (py_range N). missing e (track_command mp4 (base_of mp4) ?d i)"
      by (auto simp: py_range_def)
    then have l: "fst (track_loop e mp4 (base_of mp4) ?d (py_range N) 0) = None"
      by (simp add: track_loop_result)
    from r l assms(2) show ?thesis
      by (simp add: extract_reached [OF assms(1) n] printed_append
          get_audio_stream_count_summary resolve_output_dir_summary track_loop_summary)
  qed
  from completed halted show ?thesis by blast
qed

theorem summary_when_loop_completes_witness:
  "isfile movie_env ''movie.mp4'' \<and> fst (get_audio_stream_count movie_env ''movie.mp4'') = 3 \<and>
   dir_available movie_env None \<and>
   filter is_summary (printed (snd (extract_audio_tracks movie_env ''movie.mp4'' None))) =
     [MsgAllDone 3] \<and>
   isfile flaky_env ''movie.mp4'' \<and> fst (get_audio_stream_count flaky_env ''movie.mp4'') = 2 \<and>
   dir_available flaky_env None \<and>
   filter is_summary (printed (snd (extract_audio_tracks flaky_env ''movie.mp4'' None))) =
     [MsgPartial 1] \<and>
   isfile allfail_env ''movie.mp4'' \<and> fst (get_audio_stream_count allfail_env ''movie.mp4'') = 2 \<and>
   dir_available allfail_env None \<and>
   filter is_summary (printed (snd (extract_audio_tracks allfail_env ''movie.mp4'' None))) =
     [MsgAllFailed] \<and>
   isfile nobin_env ''movie.mp4'' \<and> fst (get_audio_stream_count nobin_env ''movie.mp4'') = 2 \<and>
   missing nobin_env (track_command ''movie.mp4'' ''movie'' ''/home/user'' 0) \<and>
   filter is_summary (printed (snd (extract_audio_tracks nobin_env ''movie.mp4'' None))) = []"
proof -
  have f1: "isfile movie_env ''movie.mp4''" by (simp add: movie_env_def world_def)
  have n1: "fst (get_audio_stream_count movie_env ''movie.mp4'') = 3" by (simp add: movie_count)
  have a1: "dir_available movie_env None" by (simp add: dir_available_def)
  have m1: "\<forall>i<nat 3. \<not> missing movie_env (track_command ''movie.mp4'' (base_of ''movie.mp4'')
      (output_dir_of movie_env ''movie.mp4'' None) i)"
    by (simp add: missing_def movie_env_def world_def)
  have f2: "isfile flaky_env ''movie.mp4''" by (simp add: flaky_env_def world_def)
  have n2: "fst (get_audio_stream_count flaky_env ''movie.mp4'') = 2" by (simp add: flaky_count)
  have a2: "dir_available flaky_env None" by (simp add: dir_available_def)
  have m2: "\<forall>i<nat 2. \<not> missing flaky_env (track_command ''movie.mp4'' (base_of ''movie.mp4'')
      (output_dir_of flaky_env ''movie.mp4'' None) i)"
    by (simp add: missing_def flaky_env_def world_def)
  have f3: "isfile allfail_env ''movie.mp4''" by (simp add: allfail_env_def world_def)
  have n3: "fst (get_audio_stream_count allfail_env ''movie.mp4'') = 2" by (simp add: allfail_count)
  have a3: "dir_available allfail_env None" by (simp add: dir_available_def)
  have m3: "\<forall>i<nat 2. \<not> missing allfail_env (track_command ''movie.mp4'' (base_of ''movie.mp4'')
      (output_dir_of allfail_env ''movie.mp4'' None) i)"
    by (simp add: missing_def allfail_env_def world_def ffmpeg_command_def)
  have f4: "isfile nobin_env ''movie.mp4''" by (simp add: nobin_env_def world_def)
  have n4: "fst (get_audio_stream_count nobin_env ''movie.mp4'') = 2" by (simp add: nobin_count)
  have m4: "missing nobin_env (track_command ''movie.mp4'' (base_of ''movie.mp4'')
      (output_dir_of nobin_env ''movie.mp4'' None) 0)"
    by (simp add: missing_def nobin_env_def world_def ffmpeg_command_def)
  then have m4': "\<exists>i<nat 2. missing nobin_env (track_command ''movie.mp4'' (base_of ''movie.mp4'')
      (output_dir_of nobin_env ''movie.mp4'' None) i)"
    by (intro exI [of _ 0]) simp
  from summary_when_loop_completes [OF f1 n1, of None] a1 m1
  have g1: "filter is_summary (printed (snd (extract_audio_tracks movie_env ''movie.mp4'' None))) =
     [MsgAllDone 3]"
    by (simp add: movie_dir example_successes)
  from summary_when_loop_completes [OF f2 n2, of None] a2 m2
  have g2: "filter is_summary (printed (snd (extract_audio_tracks flaky_env ''movie.mp4'' None))) =
     [MsgPartial 1]"
    by (simp add: flaky_dir example_successes)
  from summary_when_loop_completes [OF f3 n3, of None] a3 m3
  have g3: "filter is_summary (printed (snd (extract_audio_tracks allfail_env ''movie.mp4'' None))) =
     [MsgAllFailed]"
    by (simp add: allfail_dir example_successes)
  have z: "(0::int) < 2" by simp
  from summary_when_loop_completes [OF f4 n4 z, of None] m4'
  have g4: "filter is_summary (printed (snd (extract_audio_tracks nobin_env ''movie.mp4'' None))) = []"
    by blast
  from m4 have m4'': "missing nobin_env (track_command ''movie.mp4'' ''movie'' ''/home/user'' 0)"
    by (simp add: movie_base nobin_dir)
  from f1 n1 a1 g1 f2 n2 a2 g2 f3 n3 a3 g3 f4 n4 m4'' g4 show ?thesis by blast
qed

end
